theory Spec2Isabelle
  imports Complex_Main "HOL-Library.Log_Nat"
begin

section \<open>Data model of TrafficPatternClassifier.py\<close>

text \<open>
  Conventions of the embedding.
  \<^item> A Python \<open>datetime\<close> is an \<open>int\<close>: microseconds since the epoch (the
    resolution \<open>datetime\<close> has); \<open>timedelta(minutes=m)\<close> is \<open>m * 60000000\<close>.
    Comparisons and subtraction of datetimes are exact in Python, and so here.
  \<^item> A Python \<open>int\<close> is an \<open>int\<close>.
  \<^item> A Python \<open>float\<close> is a \<open>real\<close>: arithmetic is exact and rounding is not
    modelled, except in the section on binary64 division and addition, which models
    the two correctly rounded operations behind the ratio fields. Where pandas yields
    NaN the value is \<open>None\<close> of a \<open>real option\<close>. The rules compare floats
    with the literals 0.1 and 0.5: 0.5 is a float, and a float is below the float literal
    0.1 exactly when it is below 1/10 (no float lies between 1/10 and the float nearest
    to it), so the thresholds are the reals 1/10 and 1/2.
  \<^item> A dictionary with a fixed set of string keys is a record whose fields are the
    keys; the keys \<open>requests_1m\<close>, ..., \<open>requests_60m\<close> written by the loop over
    \<open>time_windows\<close> are one field, an association list from the window to its count.
  \<^item> An exception is a value \<open>Inl e\<close> of \<open>error + 'a\<close>.
\<close>

datatype error = KeyError string | ValueError

record request =
  path :: string

record log_entry =
  ip :: string
  timestamp :: int
  request :: request
  status_code :: int
  bytes :: int
  user_agent :: string

record feature =
  ip :: string
  request_count :: int
  avg_time_between_requests :: real
  std_time_between_requests :: real
  unique_paths_ratio :: real
  success_ratio :: real
  error_ratio :: real
  bytes_transferred_mean :: real
  user_agent_count :: int
  requests_m :: "(int \<times> int) list"

text \<open>
  A pandas \<open>DataFrame\<close>: its column labels and its rows. \<open>pd.DataFrame(features)\<close>
  takes the columns from the keys of the dictionaries, so a frame built from the empty
  list has no column at all; \<open>df[col]\<close> raises \<open>KeyError\<close> for a label that is not a
  column. A row is a record and so has every field: the labels decide only whether the
  frame-level lookup \<open>df[col]\<close> succeeds.
\<close>

record 'r DataFrame =
  columns :: "string list"
  rows :: "'r list"

text \<open>\<open>str(n)\<close> for a natural number, as the f-string \<open>f'requests_{window}m'\<close> prints it.\<close>

fun str_nat :: "nat \<Rightarrow> string" where
  "str_nat n =
     (if n < 10 then [char_of (48 + n)]
      else str_nat (n div 10) @ [char_of (48 + n mod 10)])"

declare str_nat.simps [simp del]

definition time_windows :: "int list" where
  "time_windows = [1, 5, 15, 30, 60]"

definition feature_keys :: "string list" where
  "feature_keys =
     [''ip'', ''request_count'', ''avg_time_between_requests'',
      ''std_time_between_requests'', ''unique_paths_ratio'', ''success_ratio'',
      ''error_ratio'', ''bytes_transferred_mean'', ''user_agent_count'']
     @ map (\<lambda>window. ''requests_'' @ str_nat (nat window) @ ''m'') time_windows"

definition pd_DataFrame :: "feature list \<Rightarrow> feature DataFrame" where
  "pd_DataFrame features =
     \<lparr>columns = (if features = [] then [] else feature_keys), rows = features\<rparr>"

definition getitem :: "'r DataFrame \<Rightarrow> string \<Rightarrow> ('r \<Rightarrow> 'v) \<Rightarrow> error + 'v list" where
  "getitem df col field =
     (if col \<in> set (columns df) then Inr (map field (rows df)) else Inl (KeyError col))"

section \<open>numpy helpers used by extract_features\<close>

fun np_diff :: "real list \<Rightarrow> real list" where
  "np_diff (x # y # xs) = (y - x) # np_diff (y # xs)"
| "np_diff xs = []"

definition np_mean :: "real list \<Rightarrow> real" where
  "np_mean xs = sum_list xs / real (length xs)"

text \<open>\<open>np.std\<close> is the population standard deviation (\<open>ddof = 0\<close>).\<close>

definition np_std :: "real list \<Rightarrow> real" where
  "np_std xs = sqrt (np_mean (map (\<lambda>x. (x - np_mean xs)\<^sup>2) xs))"

definition timedelta_minutes :: "int \<Rightarrow> int" where
  "timedelta_minutes m = m * 60000000"

text \<open>\<open>ts.timestamp()\<close>: seconds since the epoch as a float.\<close>

definition to_seconds :: "int \<Rightarrow> real" where
  "to_seconds ts = real_of_int ts / 1000000"

section \<open>\_count\_requests\_in\_window\<close>

text \<open>
  The body of the loop \<open>for i in range(len(timestamps))\<close>: the state is \<open>max_count\<close>.
  \<open>i\<close> ranges over \<open>[0..<length timestamps]\<close>, so \<open>timestamps ! i\<close> is always in range.
\<close>

definition window_step :: "int list \<Rightarrow> int \<Rightarrow> int \<Rightarrow> nat \<Rightarrow> int" where
  "window_step timestamps window max_count i =
     (let window_end = timestamps ! i;
          window_start = window_end - window;
          count = int (length (filter (\<lambda>ts. window_start \<le> ts \<and> ts \<le> window_end) timestamps))
      in max max_count count)"

definition count_requests_in_window :: "int list \<Rightarrow> int \<Rightarrow> int" where
  "count_requests_in_window timestamps window_minutes =
     (if timestamps = [] then 0
      else
        let max_count = 0;
            window = timedelta_minutes window_minutes
        in foldl (window_step timestamps window) max_count [0..<length timestamps])"

section \<open>extract\_features\<close>

text \<open>
  The body of the loop \<open>for ip in set(log['ip'] for log in logs)\<close>. The loop variable
  \<open>ip\<close> is \<open>ip_addr\<close> here (\<open>ip\<close> names the field). The divisions by
  \<open>len(ip_logs)\<close> never divide by zero: \<open>ip_addr\<close> is the address of a log of the batch.
\<close>

definition ip_feature :: "log_entry list \<Rightarrow> string \<Rightarrow> feature" where
  "ip_feature logs ip_addr =
     (let ip_logs = filter (\<lambda>log. log_entry.ip log = ip_addr) logs;
          timestamps = sort (map log_entry.timestamp ip_logs);
          time_diffs = np_diff (map to_seconds timestamps);
          requests = map request ip_logs;
          unique_paths = int (card (set (map path requests)))
      in \<lparr>ip = ip_addr,
          request_count = int (length ip_logs),
          avg_time_between_requests = (if length time_diffs > 0 then np_mean time_diffs else 0),
          std_time_between_requests = (if length time_diffs > 0 then np_std time_diffs else 0),
          unique_paths_ratio = real_of_int unique_paths / real (length ip_logs),
          success_ratio =
            real (length (filter (\<lambda>log. status_code log < 400) ip_logs)) / real (length ip_logs),
          error_ratio =
            real (length (filter (\<lambda>log. status_code log \<ge> 400) ip_logs)) / real (length ip_logs),
          bytes_transferred_mean = np_mean (map (\<lambda>log. real_of_int (bytes log)) ip_logs),
          user_agent_count = int (card (set (map user_agent ip_logs))),
          requests_m =
            map (\<lambda>window. (window, count_requests_in_window timestamps window)) time_windows\<rparr>)"

text \<open>
  A Python set iterates in an order of its own; the model takes the distinct addresses
  in the order \<open>remdups\<close> leaves them. Nothing below depends on that order.
\<close>

definition extract_features :: "log_entry list \<Rightarrow> feature DataFrame" where
  "extract_features logs =
     (let features = map (ip_feature logs) (remdups (map log_entry.ip logs))
      in pd_DataFrame features)"

section \<open>analyze\_patterns\<close>

record result = feature +
  anomaly_score :: int
  cluster_label :: int

record metrics =
  total_ips :: int
  anomaly_count :: int
  cluster_count :: int
  noise_points :: int
  timestamp :: int

text \<open>
  The value of a numeric column in a row, by the column's label. The column \<open>ip\<close> holds
  strings (dtype \<open>object\<close>) and has no numeric value; every other column of a feature
  frame has dtype \<open>int64\<close> or \<open>float64\<close>.
\<close>

definition numeric_value :: "feature \<Rightarrow> string \<Rightarrow> real option" where
  "numeric_value f =
     map_of
       ([(''request_count'', real_of_int (feature.request_count f)),
         (''avg_time_between_requests'', avg_time_between_requests f),
         (''std_time_between_requests'', std_time_between_requests f),
         (''unique_paths_ratio'', unique_paths_ratio f),
         (''success_ratio'', success_ratio f),
         (''error_ratio'', error_ratio f),
         (''bytes_transferred_mean'', bytes_transferred_mean f),
         (''user_agent_count'', real_of_int (user_agent_count f))]
        @ map (\<lambda>(window, c). (''requests_'' @ str_nat (nat window) @ ''m'', real_of_int c))
            (requests_m f))"

definition dtype :: "string \<Rightarrow> string" where
  "dtype col =
     (if col = ''ip'' then ''object''
      else if col \<in> set [''avg_time_between_requests'', ''std_time_between_requests'',
                ''unique_paths_ratio'', ''success_ratio'', ''error_ratio'',
                ''bytes_transferred_mean'']
      then ''float64''
      else ''int64'')"

text \<open>
  \<open>StandardScaler.fit_transform\<close> of scikit-learn: the input is validated first (an
  array with no sample or no feature is refused with \<open>ValueError\<close>); then every column
  is centred on its mean and divided by its population standard deviation, a zero
  deviation being replaced by 1.
\<close>

definition StandardScaler_fit_transform :: "real list list \<Rightarrow> error + real list list" where
  "StandardScaler_fit_transform X =
     (if X = [] then Inl ValueError
      else if hd X = [] then Inl ValueError
      else
        Inr (map (\<lambda>row.
               map (\<lambda>j. let col = map (\<lambda>r. r ! j) X;
                             u = np_mean col;
                             s = np_std col;
                             scale = (if s = 0 then 1 else s)
                         in (row ! j - u) / scale)
                 [0..<length row])
             X))"

text \<open>
  The isolation forest and DBSCAN of scikit-learn are parameters: functions from the
  scaled matrix to one label per row. \<open>now\<close> is the value of \<open>datetime.now()\<close>.
  Assigning a column of the wrong length to a frame raises \<open>ValueError\<close>.
\<close>

definition analyze_patterns ::
  "(real list list \<Rightarrow> int list) \<Rightarrow> (real list list \<Rightarrow> int list) \<Rightarrow> int \<Rightarrow>
   feature DataFrame \<Rightarrow> error + (result DataFrame \<times> metrics)" where
  "analyze_patterns isolation_forest_fit_predict dbscan_fit_predict now features_df =
     (let feature_cols =
            filter (\<lambda>col. col \<noteq> ''ip'' \<and> dtype col \<in> set [''int64'', ''float64''])
              (columns features_df);
          X = map (\<lambda>f. List.map_filter (numeric_value f) feature_cols) (rows features_df)
      in case StandardScaler_fit_transform X of
           Inl e \<Rightarrow> Inl e
         | Inr X_scaled \<Rightarrow>
             let if_predictions = isolation_forest_fit_predict X_scaled;
                 dbscan_labels = dbscan_fit_predict X_scaled;
                 n = length (rows features_df)
             in if length if_predictions = n \<and> length dbscan_labels = n
                then
                  Inr (\<lparr>columns = columns features_df @ [''anomaly_score'', ''cluster_label''],
                        rows = map (\<lambda>(f, a, c).
                                 feature.extend f \<lparr>anomaly_score = a, cluster_label = c\<rparr>)
                               (zip (rows features_df) (zip if_predictions dbscan_labels))\<rparr>,
                       \<lparr>total_ips = int n,
                        anomaly_count = int (length (filter (\<lambda>p. p = - 1) if_predictions)),
                        cluster_count =
                          int (card (set dbscan_labels))
                          - (if - 1 \<in> set dbscan_labels then 1 else 0),
                        noise_points = int (length (filter (\<lambda>l. l = - 1) dbscan_labels)),
                        timestamp = now\<rparr>)
                else Inl ValueError)"

section \<open>get\_detailed\_analysis: the rule-based interpretation\<close>

text \<open>
  \<open>Series.mean()\<close> and \<open>Series.std()\<close> of pandas. \<open>std\<close> is the sample standard
  deviation (\<open>ddof = 1\<close>, the default of pandas): the squared deviations are divided
  by \<open>n - 1\<close>. The mean of no value and the deviation of fewer than two values are NaN,
  here \<open>None\<close>; a comparison with NaN is false.
\<close>

definition series_mean :: "real list \<Rightarrow> real option" where
  "series_mean xs = (if xs = [] then None else Some (sum_list xs / real (length xs)))"

definition series_std :: "real list \<Rightarrow> real option" where
  "series_std xs =
     (if length xs < 2 then None
      else
        let m = sum_list xs / real (length xs)
        in Some (sqrt (sum_list (map (\<lambda>x. (x - m)\<^sup>2) xs) / real (length xs - 1))))"

definition get_high_frequency_ips :: "'a feature_scheme DataFrame \<Rightarrow> error + 'a feature_scheme list" where
  "get_high_frequency_ips df =
     (case getitem df ''request_count'' (\<lambda>r. real_of_int (feature.request_count r)) of
        Inl e \<Rightarrow> Inl e
      | Inr col \<Rightarrow>
          let threshold =
                (case (series_mean col, series_std col) of
                   (Some m, Some s) \<Rightarrow> Some (m + 2 * s)
                 | _ \<Rightarrow> None);
              high_freq =
                filter (\<lambda>r. case threshold of
                               None \<Rightarrow> False
                             | Some t \<Rightarrow> real_of_int (feature.request_count r) > t)
                  (rows df)
          in Inr high_freq)"

definition identify_unusual_patterns :: "'a feature_scheme \<Rightarrow> string list" where
  "identify_unusual_patterns row =
     (let patterns = [];
          patterns = (if feature.request_count row > 1000
                      then patterns @ [''Extremely high request count''] else patterns);
          patterns = (if avg_time_between_requests row < 0.1
                      then patterns @ [''Unusually rapid requests''] else patterns);
          patterns = (if error_ratio row > 0.5
                      then patterns @ [''High error rate''] else patterns);
          patterns = (if user_agent_count row > 10
                      then patterns @ [''Multiple user agents''] else patterns)
      in patterns)"

text \<open>
  \<open>_calculate_risk_level\<close>, in two parts. \<open>risk_score_of\<close> is the value of
  \<open>risk_score\<close> after the four tests have updated it in turn.
\<close>

definition risk_score_of :: "'a feature_scheme \<Rightarrow> int" where
  "risk_score_of row =
     (let risk_score = 0;
          risk_score = (if feature.request_count row > 1000 then risk_score + 3
                        else if feature.request_count row > 500 then risk_score + 2
                        else risk_score);
          risk_score = (if avg_time_between_requests row < 0.1 then risk_score + 3
                        else risk_score);
          risk_score = (if error_ratio row > 0.5 then risk_score + 2 else risk_score);
          risk_score = (if user_agent_count row > 10 then risk_score + 2 else risk_score)
      in risk_score)"

text \<open>The end of \<open>_calculate_risk_level\<close>: the level read off the final \<open>risk_score\<close>.\<close>

definition calculate_risk_level :: "'a feature_scheme \<Rightarrow> string" where
  "calculate_risk_level row =
     (let risk_score = risk_score_of row
      in if risk_score \<ge> 8 then ''High''
         else if risk_score \<ge> 5 then ''Medium''
         else ''Low'')"

record anomaly =
  ip :: string
  request_count :: int
  unusual_patterns :: "string list"
  risk_level :: string

definition analyze_anomalies :: "'a result_scheme DataFrame \<Rightarrow> error + anomaly list" where
  "analyze_anomalies df =
     (case getitem df ''anomaly_score'' anomaly_score of
        Inl e \<Rightarrow> Inl e
      | Inr scores \<Rightarrow>
          let anomalies = filter (\<lambda>r. anomaly_score r = - 1) (rows df)
          in Inr (map (\<lambda>anomaly.
                    \<lparr>ip = feature.ip anomaly,
                     request_count = feature.request_count anomaly,
                     unusual_patterns = identify_unusual_patterns anomaly,
                     risk_level = calculate_risk_level anomaly\<rparr>)
                  anomalies))"

definition generate_recommendations :: "'a feature_scheme DataFrame \<Rightarrow> error + string list" where
  "generate_recommendations df =
     (let recommendations = []
      in case getitem df ''request_count'' feature.request_count of
        Inl e \<Rightarrow> Inl e
      | Inr request_counts \<Rightarrow>
      let recommendations =
            (if list_ex (\<lambda>v. v > 1000) request_counts
             then recommendations
                  @ [''Consider implementing rate limiting for high-frequency requestors'']
             else recommendations)
      in case getitem df ''user_agent_count'' user_agent_count of
        Inl e \<Rightarrow> Inl e
      | Inr user_agent_counts \<Rightarrow>
      let recommendations =
            (if list_ex (\<lambda>v. v > 10) user_agent_counts
             then recommendations @ [''Monitor IPs using multiple user agents'']
             else recommendations)
      in case getitem df ''error_ratio'' error_ratio of
        Inl e \<Rightarrow> Inl e
      | Inr error_ratios \<Rightarrow>
      let recommendations =
            (if list_ex (\<lambda>v. v > 0.5) error_ratios
             then recommendations @ [''Investigate IPs with high error rates'']
             else recommendations)
      in case getitem df ''avg_time_between_requests'' avg_time_between_requests of
        Inl e \<Rightarrow> Inl e
      | Inr avg_times \<Rightarrow>
      let recommendations =
            (if list_ex (\<lambda>v. v < 0.1) avg_times
             then recommendations @ [''Implement request timing analysis'']
             else recommendations)
      in Inr recommendations)"

section \<open>Binary64 division and addition\<close>

text \<open>
  Python's \<open>a / b\<close> on integers is the quotient correctly rounded to a binary64 float,
  and \<open>+\<close> on floats is the sum correctly rounded: to 53 significant bits, to the
  nearest value, a tie going to the even significand. A float is its value, a rational
  number. \<open>round_double\<close> rounds a rational that way; overflow and subnormal numbers are
  not modelled (a quotient of two list lengths and a sum near 1 are far from both).
  These functions state what the ratio fields of a feature vector are as floats; the
  feature record itself keeps the exact quotients. Python raises \<open>ZeroDivisionError\<close>
  for \<open>b = 0\<close>; \<open>float_div\<close> is used with a positive divisor only.
\<close>

definition round_half_even :: "rat \<Rightarrow> int" where
  "round_half_even t =
     (let f = \<lfloor>t\<rfloor>; r = t - of_int f
      in if r < 1 / 2 then f else if 1 / 2 < r then f + 1 else if even f then f else f + 1)"

definition binary_exponent :: "rat \<Rightarrow> int" where
  "binary_exponent q =
     (let (p, d) = quotient_of \<bar>q\<bar>; k = bitlen p - bitlen d
      in if 2 powi k \<le> \<bar>q\<bar> then k else k - 1)"

definition round_double :: "rat \<Rightarrow> rat" where
  "round_double q =
     (if q = 0 then 0
      else let ulp = 2 powi (binary_exponent q - 52)
           in of_int (round_half_even (q / ulp)) * ulp)"

definition half_ulp_one :: rat where
  "half_ulp_one = 2 powi (- 54)"

definition float_div :: "int \<Rightarrow> int \<Rightarrow> rat" where
  "float_div a b = round_double (of_int a / of_int b)"

definition float_add :: "rat \<Rightarrow> rat \<Rightarrow> rat" where
  "float_add p q = round_double (p + q)"

section \<open>The specification's words\<close>

text \<open>The timestamps of the log entries of one address, in the order of the batch.\<close>

definition address_timestamps :: "log_entry list \<Rightarrow> string \<Rightarrow> int list" where
  "address_timestamps logs a =
     map log_entry.timestamp (filter (\<lambda>log. log_entry.ip log = a) logs)"

text \<open>
  The group of an address, and its counts of status codes below 400 and from 400 on.
\<close>

definition address_logs :: "log_entry list \<Rightarrow> string \<Rightarrow> log_entry list" where
  "address_logs logs a = filter (\<lambda>log. log_entry.ip log = a) logs"

definition success_count :: "log_entry list \<Rightarrow> string \<Rightarrow> int" where
  "success_count logs a =
     int (length (filter (\<lambda>log. status_code log < 400) (address_logs logs a)))"

definition error_count :: "log_entry list \<Rightarrow> string \<Rightarrow> int" where
  "error_count logs a =
     int (length (filter (\<lambda>log. status_code log \<ge> 400) (address_logs logs a)))"

text \<open>
  The number of timestamps in the closed interval \<open>[t - window, t]\<close>, and in the
  interval \<open>(t - window, t]\<close> that is open at its start; timestamps that occur several
  times count as often as they occur.
\<close>

definition closed_window_count :: "int list \<Rightarrow> int \<Rightarrow> int \<Rightarrow> int" where
  "closed_window_count timestamps window t =
     int (length (filter (\<lambda>ts. t - window \<le> ts \<and> ts \<le> t) timestamps))"

definition half_open_window_count :: "int list \<Rightarrow> int \<Rightarrow> int \<Rightarrow> int" where
  "half_open_window_count timestamps window t =
     int (length (filter (\<lambda>ts. t - window < ts \<and> ts \<le> t) timestamps))"

text \<open>
  The windowed request count in the specification's words: the maximum over the
  timestamps \<open>t\<close> of the count in \<open>(t - window, t]\<close>.
\<close>

definition spec_windowed_request_count :: "int list \<Rightarrow> int \<Rightarrow> int" where
  "spec_windowed_request_count timestamps window_minutes =
     Max (half_open_window_count timestamps (timedelta_minutes window_minutes) ` set timestamps)"

text \<open>
  The risk score and the risk level in the specification's words: +3 for more than 1000
  requests (else +2 for more than 500), +3 for a mean inter-arrival time below 0.1
  seconds, +2 for an error ratio above 0.5, +2 for more than 10 distinct user agents;
  a total of 8 or more is High, 5 or more is Medium, anything else is Low.
\<close>

definition spec_risk_score :: "int \<Rightarrow> real \<Rightarrow> real \<Rightarrow> int \<Rightarrow> int" where
  "spec_risk_score n_requests avg_inter_arrival_seconds err_ratio distinct_user_agents =
     (if n_requests > 1000 then 3 else if n_requests > 500 then 2 else 0)
     + (if avg_inter_arrival_seconds < 0.1 then 3 else 0)
     + (if err_ratio > 0.5 then 2 else 0)
     + (if distinct_user_agents > 10 then 2 else 0)"

definition spec_risk_level :: "int \<Rightarrow> string" where
  "spec_risk_level total_score =
     (if total_score \<ge> 8 then ''High'' else if total_score \<ge> 5 then ''Medium'' else ''Low'')"

text \<open>The order of the risk levels: Low, then Medium, then High.\<close>

definition risk_rank :: "string \<Rightarrow> nat" where
  "risk_rank level = (if level = ''High'' then 2 else if level = ''Medium'' then 1 else 0)"

text \<open>The four recommendations, in the fixed order frequency, user-agent, error, timing.\<close>

definition rate_limiting_recommendation :: string where
  "rate_limiting_recommendation =
     ''Consider implementing rate limiting for high-frequency requestors''"

definition multi_agent_recommendation :: string where
  "multi_agent_recommendation = ''Monitor IPs using multiple user agents''"

definition error_rate_recommendation :: string where
  "error_rate_recommendation = ''Investigate IPs with high error rates''"

definition timing_recommendation :: string where
  "timing_recommendation = ''Implement request timing analysis''"

definition all_recommendations :: "string list" where
  "all_recommendations =
     [rate_limiting_recommendation, multi_agent_recommendation,
      error_rate_recommendation, timing_recommendation]"

text \<open>
  The statistics of a batch of request counts: the mean, the sample standard deviation
  (the squared deviations divided by \<open>n - 1\<close>) and the population standard deviation
  (divided by \<open>n\<close>).
\<close>

definition batch_mean :: "real list \<Rightarrow> real" where
  "batch_mean xs = sum_list xs / real (length xs)"

definition sample_stddev :: "real list \<Rightarrow> real" where
  "sample_stddev xs =
     sqrt (sum_list (map (\<lambda>x. (x - batch_mean xs)\<^sup>2) xs) / real (length xs - 1))"

definition population_stddev :: "real list \<Rightarrow> real" where
  "population_stddev xs =
     sqrt (sum_list (map (\<lambda>x. (x - batch_mean xs)\<^sup>2) xs) / real (length xs))"

definition request_counts :: "'a feature_scheme DataFrame \<Rightarrow> real list" where
  "request_counts df = map (\<lambda>r. real_of_int (feature.request_count r)) (rows df)"

section \<open>Example batches\<close>

text \<open>
  Four requests: the first address asks at 0:00 (status 200), exactly one minute later
  (status 404) and at 0:04 (status 200); the second address asks once, at 0:00:30.
\<close>

definition sample_logs :: "log_entry list" where
  "sample_logs =
     [\<lparr>log_entry.ip = ''192.168.1.1'', log_entry.timestamp = 0,
       request = \<lparr>path = ''/page1''\<rparr>,
       status_code = 200, bytes = 1024, user_agent = ''Mozilla/5.0''\<rparr>,
      \<lparr>log_entry.ip = ''192.168.1.2'', log_entry.timestamp = 30000000,
       request = \<lparr>path = ''/page1''\<rparr>,
       status_code = 200, bytes = 512, user_agent = ''curl/8.0''\<rparr>,
      \<lparr>log_entry.ip = ''192.168.1.1'', log_entry.timestamp = 60000000,
       request = \<lparr>path = ''/page2''\<rparr>,
       status_code = 404, bytes = 0, user_agent = ''Mozilla/5.0''\<rparr>,
      \<lparr>log_entry.ip = ''192.168.1.1'', log_entry.timestamp = 240000000,
       request = \<lparr>path = ''/page1''\<rparr>,
       status_code = 200, bytes = 1024, user_agent = ''Mozilla/5.0''\<rparr>]"

text \<open>
  Scenario B of the specification: one address with 1500 requests, error ratio 0.6,
  15 user agents and a mean inter-arrival time of 0.05 seconds, labelled an outlier,
  beside a quieter address labelled an inlier.
\<close>

definition scenario_b_row :: result where
  "scenario_b_row =
     \<lparr>feature.ip = ''203.0.113.9'', feature.request_count = 1500,
      avg_time_between_requests = 0.05, std_time_between_requests = 0.01,
      unique_paths_ratio = 0.001, success_ratio = 0.4, error_ratio = 0.6,
      bytes_transferred_mean = 100, user_agent_count = 15,
      requests_m = [(1, 1200), (5, 1500), (15, 1500), (30, 1500), (60, 1500)],
      anomaly_score = - 1, cluster_label = - 1\<rparr>"

definition quiet_row :: result where
  "quiet_row =
     \<lparr>feature.ip = ''192.168.1.2'', feature.request_count = 600,
      avg_time_between_requests = 0.2, std_time_between_requests = 0,
      unique_paths_ratio = 0.5, success_ratio = 0.4, error_ratio = 0.6,
      bytes_transferred_mean = 512, user_agent_count = 5,
      requests_m = [(1, 300), (5, 600), (15, 600), (30, 600), (60, 600)],
      anomaly_score = 1, cluster_label = 0\<rparr>"

definition scenario_b_results :: "result DataFrame" where
  "scenario_b_results =
     \<lparr>columns = feature_keys @ [''anomaly_score'', ''cluster_label''],
      rows = [quiet_row, scenario_b_row]\<rparr>"

text \<open>
  Batches in which every address sends all its requests at the same instant. In
  \<open>skewed_logs\<close> six addresses send 1, 1, 1, 1, 2 and 4 requests; in \<open>spike_logs\<close>
  eight addresses send one request each and a ninth sends 4.
\<close>

definition request_from :: "string \<Rightarrow> log_entry" where
  "request_from a =
     \<lparr>log_entry.ip = a, log_entry.timestamp = 0, request = \<lparr>path = ''/''\<rparr>,
      status_code = 200, bytes = 0, user_agent = ''curl/8.0''\<rparr>"

definition skewed_logs :: "log_entry list" where
  "skewed_logs =
     map request_from
       [''10.0.0.1'', ''10.0.0.2'', ''10.0.0.3'', ''10.0.0.4'', ''10.0.0.5'', ''10.0.0.5'',
        ''10.0.0.6'', ''10.0.0.6'', ''10.0.0.6'', ''10.0.0.6'']"

definition spike_logs :: "log_entry list" where
  "spike_logs =
     map request_from
       [''10.0.0.1'', ''10.0.0.2'', ''10.0.0.3'', ''10.0.0.4'', ''10.0.0.5'', ''10.0.0.6'',
        ''10.0.0.7'', ''10.0.0.8'', ''10.0.0.9'', ''10.0.0.9'', ''10.0.0.9'', ''10.0.0.9'']"

section \<open>Lemmas on the sliding window\<close>

lemma window_step_max:
  "window_step timestamps window max_count i =
     max max_count (closed_window_count timestamps window (timestamps ! i))"
  by (simp add: window_step_def closed_window_count_def Let_def)

lemma foldl_max_Max:
  "foldl (\<lambda>m i. max m (g i)) m0 js = Max (insert (m0::int) (g ` set js))"
proof (induction js arbitrary: m0)
  case Nil
  show ?case by simp
next
  case (Cons j js)
  have "Max (insert (max m0 (g j)) (g ` set js)) = Max (insert m0 (insert (g j) (g ` set js)))"
    by (cases "js = []") (simp_all add: max.assoc)
  with Cons show ?case by simp
qed

lemma set_nth_upt: "(\<lambda>i. xs ! i) ` set [0..<length xs] = set xs"
  by (auto simp: in_set_conv_nth)

lemma count_requests_in_window_Max:
  assumes "timestamps \<noteq> []"
  shows "count_requests_in_window timestamps window_minutes =
           Max (closed_window_count timestamps (timedelta_minutes window_minutes) ` set timestamps)"
proof -
  let ?w = "timedelta_minutes window_minutes"
  let ?S = "closed_window_count timestamps ?w ` set timestamps"
  have step: "window_step timestamps ?w =
                (\<lambda>m i. max m (closed_window_count timestamps ?w (timestamps ! i)))"
    by (intro ext) (rule window_step_max)
  have img: "(\<lambda>i. closed_window_count timestamps ?w (timestamps ! i)) ` set [0..<length timestamps]
               = ?S"
    using set_nth_upt [of timestamps] by (metis image_image)
  have "count_requests_in_window timestamps window_minutes = Max (insert 0 ?S)"
    using assms by (simp add: count_requests_in_window_def step foldl_max_Max img del: set_upt)
  moreover have "finite ?S" "?S \<noteq> {}" using assms by simp_all
  moreover have "\<forall>c \<in> ?S. 0 \<le> c" by (auto simp: closed_window_count_def)
  ultimately show ?thesis
    by (metis Max_insert Max_in max.absorb2)
qed

lemma length_filter_mono:
  "(\<And>x. x \<in> set xs \<Longrightarrow> P x \<Longrightarrow> Q x) \<Longrightarrow> length (filter P xs) \<le> length (filter Q xs)"
  by (induction xs) auto

lemma closed_window_count_mono:
  "w1 \<le> w2 \<Longrightarrow> closed_window_count timestamps w1 t \<le> closed_window_count timestamps w2 t"
proof -
  assume "w1 \<le> w2"
  then have "length (filter (\<lambda>ts. t - w1 \<le> ts \<and> ts \<le> t) timestamps)
               \<le> length (filter (\<lambda>ts. t - w2 \<le> ts \<and> ts \<le> t) timestamps)"
    by (intro length_filter_mono) auto
  then show ?thesis by (simp add: closed_window_count_def)
qed

lemma closed_window_count_self:
  assumes "t \<in> set timestamps" and "0 \<le> window"
  shows "1 \<le> closed_window_count timestamps window t"
proof -
  have "t \<in> set (filter (\<lambda>ts. t - window \<le> ts \<and> ts \<le> t) timestamps)"
    using assms by simp
  then have "filter (\<lambda>ts. t - window \<le> ts \<and> ts \<le> t) timestamps \<noteq> []"
    by (metis empty_iff empty_set)
  then show ?thesis
    unfolding closed_window_count_def by (simp add: Suc_le_eq)
qed

lemma count_requests_in_window_mono:
  assumes "w1 \<le> w2"
  shows "count_requests_in_window timestamps w1 \<le> count_requests_in_window timestamps w2"
proof (cases "timestamps = []")
  case True
  then show ?thesis by (simp add: count_requests_in_window_def)
next
  case False
  let ?f = "\<lambda>w. closed_window_count timestamps (timedelta_minutes w)"
  have le: "timedelta_minutes w1 \<le> timedelta_minutes w2"
    using assms by (simp add: timedelta_minutes_def)
  have fin: "finite (?f w1 ` set timestamps)" by simp
  have ne: "?f w1 ` set timestamps \<noteq> {}" using False by simp
  have "Max (?f w1 ` set timestamps) \<in> ?f w1 ` set timestamps"
    using fin ne by (rule Max_in)
  then obtain t where t: "t \<in> set timestamps" "Max (?f w1 ` set timestamps) = ?f w1 t"
    by auto
  have "?f w1 t \<le> ?f w2 t" using le by (rule closed_window_count_mono)
  also have "?f w2 t \<le> Max (?f w2 ` set timestamps)"
    using t(1) by (intro Max_ge) simp_all
  finally show ?thesis
    using False t(2) by (simp add: count_requests_in_window_Max)
qed

lemma count_requests_in_window_pos:
  assumes "timestamps \<noteq> []" and "0 \<le> window_minutes"
  shows "1 \<le> count_requests_in_window timestamps window_minutes"
proof -
  let ?f = "closed_window_count timestamps (timedelta_minutes window_minutes)"
  obtain t where t: "t \<in> set timestamps" using assms(1) by (cases timestamps) auto
  have "0 \<le> timedelta_minutes window_minutes"
    using assms(2) by (simp add: timedelta_minutes_def)
  with t have "1 \<le> ?f t" by (rule closed_window_count_self)
  also have "?f t \<le> Max (?f ` set timestamps)"
    using t by (intro Max_ge) simp_all
  finally show ?thesis using assms(1) by (simp add: count_requests_in_window_Max)
qed

lemma closed_window_count_sort:
  "closed_window_count (sort xs) w t = closed_window_count xs w t"
proof -
  have ins: "length (filter P (insort x ys)) = length (filter P (x # ys))"
    for P and x :: int and ys
    by (induction ys) auto
  have "length (filter P (sort ys)) = length (filter P ys)" for P and ys :: "int list"
    by (induction ys) (simp_all add: ins)
  then show ?thesis by (simp add: closed_window_count_def)
qed

section \<open>Lemmas on extract\_features\<close>

lemma rows_extract_features:
  "rows (extract_features logs) = map (ip_feature logs) (remdups (map log_entry.ip logs))"
  by (simp add: extract_features_def pd_DataFrame_def)

lemma ip_ip_feature: "feature.ip (ip_feature logs a) = a"
  by (simp add: ip_feature_def Let_def)

lemma requests_m_ip_feature:
  "requests_m (ip_feature logs a) =
     map (\<lambda>window. (window, count_requests_in_window (sort (address_timestamps logs a)) window))
       time_windows"
  by (simp add: ip_feature_def Let_def address_timestamps_def)

lemma in_rows_extract_features:
  "f \<in> set (rows (extract_features logs)) \<longleftrightarrow>
     feature.ip f \<in> set (map log_entry.ip logs) \<and> f = ip_feature logs (feature.ip f)"
  by (auto simp: rows_extract_features ip_ip_feature)

lemma map_of_graph:
  "w \<in> set ws \<Longrightarrow> map_of (map (\<lambda>w. (w, g w)) ws) w = Some (g w)"
  by (induction ws) auto

lemma address_timestamps_nonempty:
  "a \<in> set (map log_entry.ip logs) \<Longrightarrow> address_timestamps logs a \<noteq> []"
  by (induction logs) (auto simp: address_timestamps_def)

lemma feature_window_count:
  assumes "f \<in> set (rows (extract_features logs))" and "w \<in> set time_windows"
  shows "map_of (requests_m f) w =
           Some (count_requests_in_window (sort (address_timestamps logs (feature.ip f))) w)"
proof -
  have "f = ip_feature logs (feature.ip f)"
    using assms(1) by (simp add: in_rows_extract_features)
  then have "requests_m f = map (\<lambda>window. (window, count_requests_in_window (sort (address_timestamps logs (feature.ip f))) window)) time_windows"
    by (metis requests_m_ip_feature)
  then show ?thesis using assms(2) by (simp add: map_of_graph)
qed

lemma sample_first_in_rows:
  "ip_feature sample_logs ''192.168.1.1'' \<in> set (rows (extract_features sample_logs))"
  by (simp add: in_rows_extract_features ip_ip_feature sample_logs_def)

lemma sample_second_in_rows:
  "ip_feature sample_logs ''192.168.1.2'' \<in> set (rows (extract_features sample_logs))"
  by (simp add: in_rows_extract_features ip_ip_feature sample_logs_def)

lemma sample_first_timestamps:
  "address_timestamps sample_logs ''192.168.1.1'' = [0, 60000000, 240000000]"
  by (simp add: address_timestamps_def sample_logs_def)

lemma sample_first_requests_m:
  "requests_m (ip_feature sample_logs ''192.168.1.1'') = [(1, 2), (5, 3), (15, 3), (30, 3), (60, 3)]"
proof -
  have "sort [0, 60000000, 240000000 :: int] = [0, 60000000, 240000000]" by simp
  moreover have "map (\<lambda>window. (window, count_requests_in_window [0, 60000000, 240000000] window))
                   time_windows = [(1, 2), (5, 3), (15, 3), (30, 3), (60, 3)]"
    by code_simp
  ultimately show ?thesis
    by (simp add: requests_m_ip_feature sample_first_timestamps)
qed

section \<open>The sliding-window claims\<close>

text \<open>
  Claim C2, as amended. For every address of the batch and every configured window size
  \<open>w\<close>, the windowed request count of the address's feature vector is the maximum,
  over the address's timestamps \<open>t\<close>, of the number of the address's timestamps in the
  closed interval \<open>[t - w, t]\<close>: the source tests \<open>window_start <= ts <= window_end\<close>,
  so a timestamp exactly equal to \<open>t - w\<close> is counted.
\<close>

theorem windowed_count_closed_interval:
  assumes "f \<in> set (rows (extract_features logs))" and "w \<in> set time_windows"
  shows "map_of (requests_m f) w =
           Some (Max (closed_window_count (address_timestamps logs (feature.ip f))
                        (timedelta_minutes w)
                      ` set (address_timestamps logs (feature.ip f))))"
proof -
  let ?ts = "address_timestamps logs (feature.ip f)"
  have "feature.ip f \<in> set (map log_entry.ip logs)"
    using assms(1) by (simp add: in_rows_extract_features)
  then have "sort ?ts \<noteq> []"
    using address_timestamps_nonempty [of "feature.ip f" logs] by (metis length_0_conv length_sort)
  then have "count_requests_in_window (sort ?ts) w =
               Max (closed_window_count (sort ?ts) (timedelta_minutes w) ` set (sort ?ts))"
    by (rule count_requests_in_window_Max)
  also have "\<dots> = Max (closed_window_count ?ts (timedelta_minutes w) ` set ?ts)"
    by (simp add: closed_window_count_sort)
  finally show ?thesis
    using feature_window_count [OF assms] by simp
qed

theorem windowed_count_closed_interval_witness:
  "ip_feature sample_logs ''192.168.1.1'' \<in> set (rows (extract_features sample_logs))
   \<and> 1 \<in> set time_windows
   \<and> map_of (requests_m (ip_feature sample_logs ''192.168.1.1'')) 1 = Some 2"
proof -
  have w: "(1::int) \<in> set time_windows" by (simp add: time_windows_def)
  have "Max (closed_window_count [0, 60000000, 240000000] (timedelta_minutes 1)
               ` set [0, 60000000, 240000000]) = 2"
    by code_simp
  then show ?thesis
    using windowed_count_closed_interval [OF sample_first_in_rows w] sample_first_in_rows w
    by (simp add: ip_ip_feature sample_first_timestamps)
qed

text \<open>
  The claim as the specification words it, with the interval \<open>(t - w, t]\<close>, fails on
  the sample batch: the first address has requests at 0:00 and 0:01, exactly one minute
  apart. The source counts both in the one-minute window that ends at 0:01 and reports
  2; the half-open interval holds one request at most.
\<close>

theorem half_open_window_counterexample:
  "ip_feature sample_logs ''192.168.1.1'' \<in> set (rows (extract_features sample_logs))
   \<and> map_of (requests_m (ip_feature sample_logs ''192.168.1.1'')) 1 = Some 2
   \<and> spec_windowed_request_count (address_timestamps sample_logs ''192.168.1.1'') 1 = 1"
proof -
  have "spec_windowed_request_count [0, 60000000, 240000000] 1 = 1"
    by code_simp
  then show ?thesis
    using sample_first_in_rows by (simp add: sample_first_timestamps sample_first_requests_m)
qed

text \<open>
  Claim C7. For every address of a batch the windowed request counts do not decrease as
  the window grows: for configured window sizes \<open>w1 \<le> w2\<close> the feature vector has a
  count for each, and the count for \<open>w1\<close> is at most the count for \<open>w2\<close>.
\<close>

theorem windowed_counts_nondecreasing:
  assumes "f \<in> set (rows (extract_features logs))"
    and "w1 \<in> set time_windows" and "w2 \<in> set time_windows" and "w1 \<le> w2"
  shows "\<exists>c1 c2. map_of (requests_m f) w1 = Some c1 \<and> map_of (requests_m f) w2 = Some c2 \<and> c1 \<le> c2"
  using feature_window_count [OF assms(1,2)] feature_window_count [OF assms(1,3)]
    count_requests_in_window_mono [OF assms(4)]
  by simp

theorem windowed_counts_nondecreasing_witness:
  "ip_feature sample_logs ''192.168.1.1'' \<in> set (rows (extract_features sample_logs))
   \<and> 1 \<in> set time_windows \<and> 5 \<in> set time_windows \<and> (1::int) \<le> 5
   \<and> map_of (requests_m (ip_feature sample_logs ''192.168.1.1'')) 1 = Some 2
   \<and> map_of (requests_m (ip_feature sample_logs ''192.168.1.1'')) 5 = Some 3
   \<and> (2::int) \<le> 3"
proof -
  have w1: "(1::int) \<in> set time_windows" and w5: "(5::int) \<in> set time_windows"
    by (simp_all add: time_windows_def)
  have le: "(1::int) \<le> 5" by simp
  show ?thesis
    using windowed_counts_nondecreasing [OF sample_first_in_rows w1 w5 le]
      sample_first_in_rows w1 w5
    by (simp add: sample_first_requests_m)
qed

text \<open>
  Claim C10. For every address of a batch and every configured window size, the feature
  vector has a windowed request count and it is at least 1: each timestamp lies in the
  window that ends at it.
\<close>

theorem windowed_count_at_least_one:
  assumes "f \<in> set (rows (extract_features logs))" and "w \<in> set time_windows"
  shows "\<exists>c. map_of (requests_m f) w = Some c \<and> 1 \<le> c"
proof -
  let ?ts = "address_timestamps logs (feature.ip f)"
  have "feature.ip f \<in> set (map log_entry.ip logs)"
    using assms(1) by (simp add: in_rows_extract_features)
  then have ne: "sort ?ts \<noteq> []"
    using address_timestamps_nonempty [of "feature.ip f" logs] by (metis length_0_conv length_sort)
  have "0 \<le> w" using assms(2) by (auto simp: time_windows_def)
  with ne have "1 \<le> count_requests_in_window (sort ?ts) w"
    by (rule count_requests_in_window_pos)
  then show ?thesis using feature_window_count [OF assms] by simp
qed

theorem windowed_count_at_least_one_witness:
  "ip_feature sample_logs ''192.168.1.2'' \<in> set (rows (extract_features sample_logs))
   \<and> 60 \<in> set time_windows
   \<and> map_of (requests_m (ip_feature sample_logs ''192.168.1.2'')) 60 = Some 1"
proof -
  have w: "(60::int) \<in> set time_windows" by (simp add: time_windows_def)
  have ts: "address_timestamps sample_logs ''192.168.1.2'' = [30000000]"
    by (simp add: address_timestamps_def sample_logs_def)
  have "map_of (map (\<lambda>window. (window, count_requests_in_window [30000000] window))
                  time_windows) 60 = Some 1"
    by code_simp
  then have "map_of (requests_m (ip_feature sample_logs ''192.168.1.2'')) 60 = Some 1"
    by (simp add: requests_m_ip_feature ts)
  then show ?thesis
    using windowed_count_at_least_one [OF sample_second_in_rows w] sample_second_in_rows w
    by simp
qed

section \<open>Lemmas on binary64 rounding\<close>

lemma round_half_even_spec:
  "\<bar>t - of_int (round_half_even t)\<bar> \<le> 1 / 2
   \<and> (\<bar>t - of_int (round_half_even t)\<bar> = 1 / 2 \<longrightarrow> even (round_half_even t))"
proof -
  define f where "f = \<lfloor>t\<rfloor>"
  define r where "r = t - of_int f"
  have r: "0 \<le> r" "r < 1" unfolding r_def f_def by linarith+
  have d0: "t - of_int f = r" and d1: "t - of_int (f + 1) = r - 1"
    by (simp_all add: r_def)
  have rhe: "round_half_even t =
      (if r < 1 / 2 then f else if 1 / 2 < r then f + 1 else if even f then f else f + 1)"
    by (simp add: round_half_even_def Let_def r_def f_def)
  consider "r < 1 / 2" | "1 / 2 < r" | "r = 1 / 2" "even f" | "r = 1 / 2" "odd f"
    by force
  then show ?thesis
  proof cases
    case 1
    then have e: "round_half_even t = f" by (simp add: rhe)
    show ?thesis unfolding e d0 using 1 r by simp
  next
    case 2
    then have e: "round_half_even t = f + 1" by (simp add: rhe)
    show ?thesis unfolding e d1 using 2 r by simp
  next
    case 3
    then have e: "round_half_even t = f" by (simp add: rhe)
    show ?thesis unfolding e d0 using 3 by simp
  next
    case 4
    then have e: "round_half_even t = f + 1" by (simp add: rhe)
    show ?thesis unfolding e d1 using 4 by simp
  qed
qed

lemma round_half_even_unique:
  assumes "\<bar>t - of_int m\<bar> < 1 / 2 \<or> (\<bar>t - of_int m\<bar> = 1 / 2 \<and> even m)"
  shows "round_half_even t = m"
proof -
  let ?r = "round_half_even t"
  note s = round_half_even_spec [of t]
  have "\<bar>(of_int ?r :: rat) - of_int m\<bar> \<le> 1"
    using s assms by (auto simp: abs_if split: if_splits)
  then have "\<bar>?r - m\<bar> \<le> 1"
    by (metis of_int_diff of_int_abs of_int_le_1_iff)
  then consider "?r = m" | "?r = m + 1" | "?r = m - 1" by linarith
  then show ?thesis
  proof cases
    case 1 then show ?thesis .
  next
    case 2
    then have "(of_int ?r :: rat) = of_int m + 1" by simp
    with s assms show ?thesis using 2 by (auto simp: abs_if split: if_splits)
  next
    case 3
    then have "(of_int ?r :: rat) = of_int m - 1" by simp
    with s assms show ?thesis using 3 by (auto simp: abs_if split: if_splits)
  qed
qed

lemma powi_mono: "e \<le> e' \<Longrightarrow> (2::rat) powi e \<le> 2 powi e'"
  by (rule power_int_increasing) simp_all

lemma binary_exponent_bounds:
  assumes "0 < q"
  shows "2 powi (binary_exponent q) \<le> q \<and> q < 2 powi (binary_exponent q + 1)"
proof -
  obtain p d where pd: "quotient_of q = (p, d)" by (cases "quotient_of q")
  then have q: "q = of_int p / of_int d" and d: "0 < d"
    by (simp_all add: quotient_of_div quotient_of_denom_pos)
  have p: "0 < p" using assms q d by (simp add: zero_less_divide_iff)
  let ?k = "bitlen p - bitlen d"
  have bits: "(2::rat) powi (bitlen m - 1) \<le> of_int m \<and> (of_int m :: rat) < 2 powi (bitlen m)"
    if "0 < m" for m
  proof -
    have pos: "1 \<le> bitlen m"
      using that bitlen_eq_zero_iff [of m] bitlen_nonneg [of m] by linarith
    have "2 ^ nat (bitlen m - 1) \<le> m" "m < 2 ^ nat (bitlen m)"
      using bitlen_bounds [OF that] by simp_all
    then have "(of_int (2 ^ nat (bitlen m - 1)) :: rat) \<le> of_int m"
      "(of_int m :: rat) < of_int (2 ^ nat (bitlen m))"
      by (simp_all only: of_int_le_iff of_int_less_iff)
    then show ?thesis
      using pos by (simp add: power_int_def)
  qed
  note bp = bits [OF p] and bd = bits [OF d]
  have dpos: "(0::rat) < 2 powi (bitlen d - 1)" "(0::rat) < 2 powi (bitlen d)" by simp_all
  have "q \<le> of_int p / 2 powi (bitlen d - 1)"
    unfolding q using bd p dpos by (intro divide_left_mono) (simp_all add: d)
  also have "\<dots> < 2 powi (bitlen p) / 2 powi (bitlen d - 1)"
    using bp dpos by (intro divide_strict_right_mono) simp_all
  also have "\<dots> = 2 powi (?k + 1)"
    by (simp add: power_int_diff [symmetric] algebra_simps)
  finally have up: "q < 2 powi (?k + 1)" .
  have "(2::rat) powi (?k - 1) = 2 powi (bitlen p - 1) / 2 powi (bitlen d)"
    by (simp add: power_int_diff [symmetric] algebra_simps)
  also have "\<dots> \<le> of_int p / 2 powi (bitlen d)"
    using bp dpos by (intro divide_right_mono) simp_all
  also have "\<dots> \<le> q"
    unfolding q using bd p d by (intro divide_left_mono) simp_all
  finally have lo: "2 powi (?k - 1) \<le> q" .
  have be: "binary_exponent q = (if 2 powi ?k \<le> q then ?k else ?k - 1)"
    using assms pd by (simp add: binary_exponent_def Let_def)
  show ?thesis
    using up lo by (auto simp: be)
qed

lemma binary_exponent_unique:
  assumes "0 < q" and "2 powi e \<le> q" and "q < 2 powi (e + 1)"
  shows "binary_exponent q = e"
proof (rule ccontr)
  let ?b = "binary_exponent q"
  note b = binary_exponent_bounds [OF assms(1)]
  assume "?b \<noteq> e"
  then consider "?b + 1 \<le> e" | "e + 1 \<le> ?b" by linarith
  then show False
  proof cases
    case 1
    then have "(2::rat) powi (?b + 1) \<le> 2 powi e" by (rule powi_mono)
    with b assms show False by linarith
  next
    case 2
    then have "(2::rat) powi (e + 1) \<le> 2 powi ?b" by (rule powi_mono)
    with b assms show False by linarith
  qed
qed


lemma round_half_even_even_minus:
  assumes "even N"
  shows "round_half_even (of_int N - t) = N - round_half_even t"
proof (rule round_half_even_unique)
  note s = round_half_even_spec [of t]
  have eq: "\<bar>of_int N - t - of_int (N - round_half_even t)\<bar> = \<bar>t - of_int (round_half_even t)\<bar>"
    by simp
  show "\<bar>of_int N - t - of_int (N - round_half_even t)\<bar> < 1 / 2
        \<or> (\<bar>of_int N - t - of_int (N - round_half_even t)\<bar> = 1 / 2
            \<and> even (N - round_half_even t))"
    unfolding eq using s assms by auto
qed

lemma round_half_even_le_int:
  assumes "t \<le> of_int U"
  shows "round_half_even t \<le> U"
proof -
  have "of_int (round_half_even t) \<le> t + 1 / 2"
    using round_half_even_spec [of t] by (simp add: abs_if split: if_splits)
  then have "(of_int (round_half_even t) :: rat) < of_int (U + 1)"
    using assms by simp
  then show ?thesis by (simp only: of_int_less_iff)
qed

lemma round_half_even_ge_int:
  assumes "of_int L \<le> t"
  shows "L \<le> round_half_even t"
proof -
  have "t - 1 / 2 \<le> of_int (round_half_even t)"
    using round_half_even_spec [of t] by (simp add: abs_if split: if_splits)
  then have "(of_int (L - 1) :: rat) < of_int (round_half_even t)"
    using assms by simp
  then show ?thesis by (simp only: of_int_less_iff)
qed

lemma round_double_exponent:
  assumes "0 < q" and "2 powi e \<le> q" and "q < 2 powi (e + 1)"
  shows "round_double q = of_int (round_half_even (q / 2 powi (e - 52))) * 2 powi (e - 52)"
  using assms binary_exponent_unique [OF assms]
  by (simp add: round_double_def Let_def)

lemma powi_facts:
  "(2::rat) powi (- 53) = 2 * half_ulp_one"
  "(2::rat) powi (- 52) = 4 * half_ulp_one"
  "(2::rat) powi (- 1) = 1 / 2"
  "(2::rat) powi 0 = 1" "(2::rat) powi 1 = 2"
  "of_int (2 ^ 54) * half_ulp_one = 1"
  "0 < half_ulp_one"
  by (simp_all add: half_ulp_one_def power_int_minus)

lemma round_double_near_one:
  assumes "\<bar>d\<bar> \<le> half_ulp_one"
  shows "round_double (1 + d) = 1"
proof (cases "0 \<le> d")
  case True
  let ?h = half_ulp_one
  have h: "0 < ?h" "of_int (2 ^ 54) * ?h = 1" by (rule powi_facts)+
  have small: "?h < 1" using h by (simp add: half_ulp_one_def power_int_minus)
  have q: "0 < 1 + d" "2 powi 0 \<le> 1 + d" "1 + d < 2 powi (0 + 1)"
    using True assms small by (simp_all add: powi_facts)
  have ulp: "(2::rat) powi (0 - 52) = 4 * ?h" using powi_facts(2) by simp
  have one: "(1::rat) = of_int (2 ^ 52) * (4 * ?h)"
    using h(2) by simp
  have "(1 + d) / (4 * ?h) - of_int (2 ^ 52) = d / (4 * ?h)"
    using h(1) one by (simp add: field_simps)
  moreover have "\<bar>d / (4 * ?h)\<bar> < 1 / 2"
    using assms h(1) True by (simp add: field_simps)
  ultimately have "round_half_even ((1 + d) / (4 * ?h)) = 2 ^ 52"
    by (intro round_half_even_unique) simp
  then show ?thesis
    unfolding round_double_exponent [OF q] ulp using one by simp
next
  case False
  let ?h = half_ulp_one
  have h: "0 < ?h" "of_int (2 ^ 54) * ?h = 1" by (rule powi_facts)+
  have small: "?h < 1 / 2" using h by (simp add: half_ulp_one_def power_int_minus)
  have q: "0 < 1 + d" "2 powi (- 1) \<le> 1 + d" "1 + d < 2 powi (- 1 + 1)"
    using False assms small by (simp_all add: powi_facts)
  have ulp: "(2::rat) powi (- 1 - 52) = 2 * ?h" using powi_facts(1) by simp
  have one: "(1::rat) = of_int (2 ^ 53) * (2 * ?h)"
    using h(2) by simp
  have "(1 + d) / (2 * ?h) - of_int (2 ^ 53) = d / (2 * ?h)"
    using h(1) one by (simp add: field_simps)
  moreover have "\<bar>d / (2 * ?h)\<bar> \<le> 1 / 2"
    using assms h(1) False by (simp add: field_simps)
  moreover have "even ((2::int) ^ 53)" by simp
  ultimately have "round_half_even ((1 + d) / (2 * ?h)) = 2 ^ 53"
    by (intro round_half_even_unique) (simp add: less_le)
  then show ?thesis
    unfolding round_double_exponent [OF q] ulp using one by simp
qed

lemma round_double_one: "round_double 1 = 1"
  using round_double_near_one [of 0] powi_facts(7) by simp

lemma round_double_zero: "round_double 0 = 0"
  by (simp add: round_double_def)

lemma ratio_sum_ordered:
  fixes x y :: rat
  assumes "0 < x" and "x \<le> y" and "x + y = 1"
  shows "round_double (round_double x + round_double y) = 1"
proof -
  let ?h = half_ulp_one
  define u where "u = 2 * ?h"
  have u: "0 < u" "of_int (2 ^ 53) * u = 1" "u = 2 powi (- 53)"
    using powi_facts(6,7) by (simp_all add: u_def powi_facts(1))
  have y: "1 / 2 \<le> y" "y < 1" "0 < y" and x: "x \<le> 1 / 2" "x < 1"
    using assms by linarith+
  define M where "M = round_half_even (x / u)"
  \<comment> \<open>the larger quotient\<close>
  have qy: "0 < y" "2 powi (- 1) \<le> y" "y < 2 powi (- 1 + 1)"
    using y by (simp_all add: powi_facts)
  have yu: "y / u = of_int (2 ^ 53) - x / u"
  proof -
    have "y / u = (1 - x) / u" using assms(3) by (simp add: algebra_simps)
    also have "\<dots> = 1 / u - x / u" by (simp add: diff_divide_distrib)
    also have "1 / u = of_int (2 ^ 53)" using u(1,2) by (simp add: field_simps)
    finally show ?thesis .
  qed
  have ev: "even ((2::int) ^ 53)" by simp
  have "round_half_even (y / u) = 2 ^ 53 - M"
    unfolding yu M_def by (rule round_half_even_even_minus [OF ev])
  then have fy: "round_double y = 1 - of_int M * u"
    unfolding round_double_exponent [OF qy]
    using u(2) by (simp add: u(3) algebra_simps)
  \<comment> \<open>the smaller quotient\<close>
  define e where "e = binary_exponent x"
  have ex: "2 powi e \<le> x" "x < 2 powi (e + 1)"
    using binary_exponent_bounds [OF assms(1)] by (simp_all add: e_def)
  have eneg: "e \<le> - 1"
  proof (rule ccontr)
    assume "\<not> e \<le> - 1"
    then have "0 \<le> e" by simp
    then have "(2::rat) powi 0 \<le> 2 powi e" by (rule powi_mono)
    with ex(1) x(2) show False by simp
  qed
  define k where "k = nat (- 1 - e)"
  define g where "g = (2::rat) powi (e - 52)"
  have g: "0 < g" by (simp add: g_def)
  have ug: "u = g * 2 ^ k"
  proof -
    have "(2::rat) powi (- 53) = 2 powi (e - 52) * 2 powi (- 1 - e)"
      by (simp add: power_int_add [symmetric])
    moreover have "(2::rat) powi (- 1 - e) = 2 ^ k"
      using eneg by (simp add: k_def power_int_def)
    ultimately show ?thesis by (simp add: u(3) g_def)
  qed
  define t where "t = x / g"
  have fx: "round_double x = of_int (round_half_even t) * g"
    unfolding t_def g_def using round_double_exponent [OF assms(1) ex] .
  have xu: "x / u = t / 2 ^ k"
    using g by (simp add: ug t_def)
  have near: "\<bar>t / 2 ^ k - of_int M\<bar> \<le> 1 / 2"
    using round_half_even_spec [of "x / u"] by (simp add: M_def xu)
  have D: "\<bar>of_int (round_half_even t) - of_int M * 2 ^ k\<bar> \<le> (2 ^ k / 2 :: rat)"
  proof (cases k)
    case 0
    then have "round_half_even t = M" using xu by (simp add: M_def)
    then show ?thesis by (simp add: 0)
  next
    case (Suc j)
    have p: "(2::rat) ^ k = 2 * 2 ^ j" by (simp add: Suc)
    have "\<bar>t - of_int M * 2 ^ k\<bar> \<le> 2 ^ k / 2"
    proof -
      have "t - of_int M * 2 ^ k = (t / 2 ^ k - of_int M) * 2 ^ k"
        by (simp add: field_simps)
      then have "\<bar>t - of_int M * 2 ^ k\<bar> = \<bar>t / 2 ^ k - of_int M\<bar> * 2 ^ k"
        by (simp only: abs_mult) simp
      also have "\<dots> \<le> 1 / 2 * 2 ^ k"
        using near by (intro mult_right_mono) simp_all
      finally show ?thesis by simp
    qed
    then have bounds: "t \<le> of_int (M * 2 ^ k + 2 ^ j)" "of_int (M * 2 ^ k - 2 ^ j) \<le> t"
      by (simp_all add: p abs_le_iff)
    have "round_half_even t \<le> M * 2 ^ k + 2 ^ j" "M * 2 ^ k - 2 ^ j \<le> round_half_even t"
      using round_half_even_le_int [OF bounds(1)] round_half_even_ge_int [OF bounds(2)] .
    then have "\<bar>round_half_even t - M * 2 ^ k\<bar> \<le> 2 ^ j" by linarith
    then have "(of_int \<bar>round_half_even t - M * 2 ^ k\<bar> :: rat) \<le> of_int (2 ^ j)"
      by (simp only: of_int_le_iff)
    then show ?thesis by (simp add: p)
  qed
  define d where "d = round_double x + round_double y - 1"
  have "d = g * (of_int (round_half_even t) - of_int M * 2 ^ k)"
    by (simp add: d_def fx fy ug algebra_simps)
  then have "\<bar>d\<bar> = g * \<bar>of_int (round_half_even t) - of_int M * 2 ^ k\<bar>"
    using g by (simp add: abs_mult)
  also have "\<dots> \<le> g * (2 ^ k / 2)"
    using D g by (intro mult_left_mono) simp_all
  also have "\<dots> = ?h" by (simp add: ug [symmetric] u_def)
  finally have "\<bar>d\<bar> \<le> ?h" .
  then have "round_double (1 + d) = 1" by (rule round_double_near_one)
  then show ?thesis by (simp add: d_def)
qed

lemma float_ratio_sum:
  assumes "0 \<le> a" and "0 \<le> b" and "0 < a + b"
  shows "float_add (float_div a (a + b)) (float_div b (a + b)) = 1"
proof -
  define x :: rat where "x = of_int a / of_int (a + b)"
  define y :: rat where "y = of_int b / of_int (a + b)"
  have sum: "x + y = 1"
    using assms(3) by (simp add: x_def y_def add_divide_distrib [symmetric])
  have nonneg: "0 \<le> x" "0 \<le> y" using assms by (simp_all add: x_def y_def)
  have goal: "round_double (round_double x + round_double y) = 1"
  proof -
    consider "x = 0" | "y = 0" | "0 < x" "x \<le> y" | "0 < y" "y \<le> x"
      using nonneg by linarith
    then show ?thesis
    proof cases
      case 1
      then have "y = 1" using sum by simp
      with 1 show ?thesis by (simp add: round_double_one round_double_zero)
    next
      case 2
      then have "x = 1" using sum by simp
      with 2 show ?thesis by (simp add: round_double_one round_double_zero)
    next
      case 3
      then show ?thesis using sum by (intro ratio_sum_ordered)
    next
      case 4
      then have "round_double (round_double y + round_double x) = 1"
        using sum by (intro ratio_sum_ordered) simp_all
      then show ?thesis by (simp add: add.commute)
    qed
  qed
  then show ?thesis by (simp add: float_add_def float_div_def x_def y_def)
qed

section \<open>The feature-vector claim\<close>

lemma ip_logs_nonempty:
  "a \<in> set (map log_entry.ip logs) \<Longrightarrow> filter (\<lambda>log. log_entry.ip log = a) logs \<noteq> []"
  by (induction logs) auto

lemma length_filter_eq_distinct:
  "distinct xs \<Longrightarrow> a \<in> set xs \<Longrightarrow> length (filter (\<lambda>x. x = a) xs) = 1"
  by (induction xs) (auto simp: filter_empty_conv)

lemma one_row_per_address:
  assumes "a \<in> set (map log_entry.ip logs)"
  shows "length (filter (\<lambda>f. feature.ip f = a) (rows (extract_features logs))) = 1"
proof -
  have "filter (\<lambda>f. feature.ip f = a) (rows (extract_features logs)) =
          map (ip_feature logs) (filter (\<lambda>x. x = a) (remdups (map log_entry.ip logs)))"
    by (simp add: rows_extract_features filter_map comp_def ip_ip_feature)
  moreover have "length (filter (\<lambda>x. x = a) (remdups (map log_entry.ip logs))) = 1"
    using assms by (intro length_filter_eq_distinct) simp_all
  ultimately show ?thesis by simp
qed

lemma ratios_ip_feature:
  assumes "a \<in> set (map log_entry.ip logs)"
  shows "success_ratio (ip_feature logs a) + error_ratio (ip_feature logs a) = 1"
proof -
  let ?g = "filter (\<lambda>log. log_entry.ip log = a) logs"
  have ne: "real (length ?g) \<noteq> 0"
    using ip_logs_nonempty [OF assms] by simp
  have compl: "(\<lambda>log. 400 \<le> status_code log) = (\<lambda>log. \<not> status_code log < 400)"
    by (intro ext) auto
  have "length (filter (\<lambda>log. status_code log < 400) ?g)
          + length (filter (\<lambda>log. 400 \<le> status_code log) ?g) = length ?g"
    unfolding compl by (rule sum_length_filter_compl)
  then have "real (length (filter (\<lambda>log. status_code log < 400) ?g))
          + real (length (filter (\<lambda>log. 400 \<le> status_code log) ?g)) = real (length ?g)"
    by (metis of_nat_add)
  then have "(real (length (filter (\<lambda>log. status_code log < 400) ?g))
          + real (length (filter (\<lambda>log. 400 \<le> status_code log) ?g))) / real (length ?g) = 1"
    using ne by simp
  then show ?thesis
    by (simp add: ip_feature_def Let_def add_divide_distrib)
qed

lemma single_entry_ip_feature:
  assumes "length (filter (\<lambda>log. log_entry.ip log = a) logs) = 1"
  shows "avg_time_between_requests (ip_feature logs a) = 0
         \<and> std_time_between_requests (ip_feature logs a) = 0"
proof -
  let ?ts = "sort (map log_entry.timestamp (filter (\<lambda>log. log_entry.ip log = a) logs))"
  have "length ?ts = 1" using assms by simp
  then obtain t where "?ts = [t]"
    by (cases ?ts) auto
  then have "np_diff (map to_seconds ?ts) = []" by simp
  then show ?thesis by (simp add: ip_feature_def Let_def)
qed

lemma counts_partition:
  "success_count logs a + error_count logs a = int (length (address_logs logs a))"
proof -
  let ?g = "address_logs logs a"
  have compl: "(\<lambda>log. 400 \<le> status_code log) = (\<lambda>log. \<not> status_code log < 400)"
    by (intro ext) auto
  have "length (filter (\<lambda>log. status_code log < 400) ?g)
          + length (filter (\<lambda>log. 400 \<le> status_code log) ?g) = length ?g"
    unfolding compl by (rule sum_length_filter_compl)
  then show ?thesis
    unfolding success_count_def error_count_def by (simp only: of_nat_add [symmetric])
qed

lemma ratio_fields_ip_feature:
  "feature.request_count (ip_feature logs a) = int (length (address_logs logs a))"
  "success_ratio (ip_feature logs a)
     = real_of_int (success_count logs a) / real_of_int (feature.request_count (ip_feature logs a))"
  "error_ratio (ip_feature logs a)
     = real_of_int (error_count logs a) / real_of_int (feature.request_count (ip_feature logs a))"
  by (simp_all add: ip_feature_def Let_def address_logs_def success_count_def error_count_def)

lemma address_logs_nonempty:
  "a \<in> set (map log_entry.ip logs) \<Longrightarrow> 0 < length (address_logs logs a)"
  using ip_logs_nonempty [of a logs] by (simp add: address_logs_def)

text \<open>
  Claim C8. Every address that occurs in the batch has exactly one feature vector, and
  every feature vector belongs to an address of the batch. In each feature vector the
  success ratio and the error ratio are the counts of status codes below 400 and from
  400 on, divided by the size of the group; the two counts partition the group, so the
  ratios add up to 1, and the two quotients as Python computes them (each rounded to a
  binary64 float) add up, in float addition, to exactly 1.0. Where the group of an
  address has a single entry, \<open>avg_time_between_requests\<close> and
  \<open>std_time_between_requests\<close> are 0.
\<close>

theorem feature_vector_per_address:
  "(\<forall>a \<in> set (map log_entry.ip logs).
      length (filter (\<lambda>f. feature.ip f = a) (rows (extract_features logs))) = 1)
   \<and> (\<forall>f \<in> set (rows (extract_features logs)).
        feature.ip f \<in> set (map log_entry.ip logs)
        \<and> 1 \<le> feature.request_count f
        \<and> success_ratio f
            = real_of_int (success_count logs (feature.ip f)) / real_of_int (feature.request_count f)
        \<and> error_ratio f
            = real_of_int (error_count logs (feature.ip f)) / real_of_int (feature.request_count f)
        \<and> success_count logs (feature.ip f) + error_count logs (feature.ip f)
            = feature.request_count f
        \<and> success_ratio f + error_ratio f = 1
        \<and> float_add (float_div (success_count logs (feature.ip f)) (feature.request_count f))
              (float_div (error_count logs (feature.ip f)) (feature.request_count f)) = 1
        \<and> (feature.request_count f = 1 \<longrightarrow>
             avg_time_between_requests f = 0 \<and> std_time_between_requests f = 0))"
proof (intro conjI ballI)
  fix a assume "a \<in> set (map log_entry.ip logs)"
  then show "length (filter (\<lambda>f. feature.ip f = a) (rows (extract_features logs))) = 1"
    by (rule one_row_per_address)
next
  fix f assume f: "f \<in> set (rows (extract_features logs))"
  define a where "a = feature.ip f"
  have a: "a \<in> set (map log_entry.ip logs)" and fa: "f = ip_feature logs a"
    using f by (simp_all add: in_rows_extract_features a_def)
  have n: "feature.request_count f = int (length (address_logs logs a))"
    unfolding fa by (rule ratio_fields_ip_feature)
  have pos: "1 \<le> feature.request_count f"
    using address_logs_nonempty [OF a] by (cases "address_logs logs a") (simp_all add: n)
  have part: "success_count logs a + error_count logs a = feature.request_count f"
    by (simp add: counts_partition n)
  show "feature.ip f \<in> set (map log_entry.ip logs)" using a by (simp add: a_def)
  show "1 \<le> feature.request_count f" by (rule pos)
  show "success_ratio f
          = real_of_int (success_count logs (feature.ip f)) / real_of_int (feature.request_count f)"
    unfolding a_def [symmetric] using ratio_fields_ip_feature(2) [of logs a] by (simp add: fa)
  show "error_ratio f
          = real_of_int (error_count logs (feature.ip f)) / real_of_int (feature.request_count f)"
    unfolding a_def [symmetric] using ratio_fields_ip_feature(3) [of logs a] by (simp add: fa)
  show "success_count logs (feature.ip f) + error_count logs (feature.ip f)
          = feature.request_count f"
    unfolding a_def [symmetric] by (rule part)
  show "success_ratio f + error_ratio f = 1"
    using ratios_ip_feature [OF a] by (simp add: fa)
  show "float_add (float_div (success_count logs (feature.ip f)) (feature.request_count f))
          (float_div (error_count logs (feature.ip f)) (feature.request_count f)) = 1"
  proof -
    have "0 \<le> success_count logs a" "0 \<le> error_count logs a"
      by (simp_all add: success_count_def error_count_def)
    moreover have "0 < success_count logs a + error_count logs a"
      using part pos by simp
    ultimately have "float_add (float_div (success_count logs a)
                        (success_count logs a + error_count logs a))
                      (float_div (error_count logs a)
                        (success_count logs a + error_count logs a)) = 1"
      by (rule float_ratio_sum)
    then show ?thesis unfolding part by (simp only: a_def)
  qed
  show "feature.request_count f = 1 \<longrightarrow>
          avg_time_between_requests f = 0 \<and> std_time_between_requests f = 0"
  proof
    assume "feature.request_count f = 1"
    then have "length (filter (\<lambda>log. log_entry.ip log = a) logs) = 1"
      by (simp add: n address_logs_def)
    then show "avg_time_between_requests f = 0 \<and> std_time_between_requests f = 0"
      unfolding fa by (rule single_entry_ip_feature)
  qed
qed

theorem feature_vector_per_address_witness:
  "''192.168.1.1'' \<in> set (map log_entry.ip sample_logs)
   \<and> length (filter (\<lambda>f. feature.ip f = ''192.168.1.1'') (rows (extract_features sample_logs))) = 1
   \<and> ip_feature sample_logs ''192.168.1.1'' \<in> set (rows (extract_features sample_logs))
   \<and> feature.request_count (ip_feature sample_logs ''192.168.1.1'') = 3
   \<and> success_ratio (ip_feature sample_logs ''192.168.1.1'') = 2 / 3
   \<and> error_ratio (ip_feature sample_logs ''192.168.1.1'') = 1 / 3
   \<and> float_div 2 3 = 6004799503160661 / 9007199254740992
   \<and> float_div 1 3 = 6004799503160661 / 18014398509481984
   \<and> float_add (float_div 2 3) (float_div 1 3) = 1
   \<and> ip_feature sample_logs ''192.168.1.2'' \<in> set (rows (extract_features sample_logs))
   \<and> feature.request_count (ip_feature sample_logs ''192.168.1.2'') = 1
   \<and> avg_time_between_requests (ip_feature sample_logs ''192.168.1.2'') = 0
   \<and> std_time_between_requests (ip_feature sample_logs ''192.168.1.2'') = 0"
proof -
  note inst = feature_vector_per_address [of sample_logs]
  have a: "''192.168.1.1'' \<in> set (map log_entry.ip sample_logs)"
    by (simp add: sample_logs_def)
  have n1: "feature.request_count (ip_feature sample_logs ''192.168.1.1'') = 3"
    and n2: "feature.request_count (ip_feature sample_logs ''192.168.1.2'') = 1"
    by (simp_all add: ip_feature_def sample_logs_def Let_def)
  have c: "success_count sample_logs ''192.168.1.1'' = 2"
    "error_count sample_logs ''192.168.1.1'' = 1"
    by (simp_all add: success_count_def error_count_def address_logs_def sample_logs_def)
  have s: "success_ratio (ip_feature sample_logs ''192.168.1.1'') = 2 / 3"
    and e: "error_ratio (ip_feature sample_logs ''192.168.1.1'') = 1 / 3"
    by (simp_all add: ip_feature_def sample_logs_def Let_def)
  have d: "float_div 2 3 = 6004799503160661 / 9007199254740992"
    "float_div 1 3 = 6004799503160661 / 18014398509481984"
    by code_simp+
  have one: "length (filter (\<lambda>f. feature.ip f = ''192.168.1.1'') (rows (extract_features sample_logs))) = 1"
    using conjunct1 [OF inst] a by (rule bspec)
  have fl: "float_add (float_div 2 3) (float_div 1 3) = 1"
  proof -
    let ?f = "ip_feature sample_logs ''192.168.1.1''"
    have "float_add (float_div (success_count sample_logs (feature.ip ?f)) (feature.request_count ?f))
              (float_div (error_count sample_logs (feature.ip ?f)) (feature.request_count ?f)) = 1"
      using inst sample_first_in_rows by blast
    then show ?thesis by (simp only: ip_ip_feature n1 c)
  qed
  have z: "avg_time_between_requests (ip_feature sample_logs ''192.168.1.2'') = 0"
    "std_time_between_requests (ip_feature sample_logs ''192.168.1.2'') = 0"
    using inst sample_second_in_rows n2 by blast+
  show ?thesis
    by (intro conjI a one sample_first_in_rows n1 s e d fl sample_second_in_rows n2 z)
qed

section \<open>The risk-level claims\<close>

lemma risk_score_of_spec:
  "risk_score_of row =
     spec_risk_score (feature.request_count row) (avg_time_between_requests row)
       (error_ratio row) (user_agent_count row)"
  by (simp add: risk_score_of_def spec_risk_score_def Let_def)

lemma calculate_risk_level_spec:
  "calculate_risk_level row = spec_risk_level (risk_score_of row)"
  by (simp add: calculate_risk_level_def spec_risk_level_def Let_def)

text \<open>
  Claim C4. The risk score of a row is the sum the specification gives, and the risk
  level is read off it as the specification says; \<open>_analyze_anomalies\<close> reports, for
  exactly the rows labelled outliers (\<open>anomaly_score = -1\<close>) and in their order, the
  level of that sum.
\<close>

theorem risk_score_additive:
  "risk_score_of row =
     spec_risk_score (feature.request_count row) (avg_time_between_requests row)
       (error_ratio row) (user_agent_count row)
   \<and> calculate_risk_level row = spec_risk_level (risk_score_of row)
   \<and> (analyze_anomalies df = Inr findings \<longrightarrow>
        map anomaly.ip findings = map feature.ip (filter (\<lambda>r. anomaly_score r = - 1) (rows df))
        \<and> map risk_level findings =
            map (\<lambda>r. spec_risk_level
                       (spec_risk_score (feature.request_count r) (avg_time_between_requests r)
                          (error_ratio r) (user_agent_count r)))
              (filter (\<lambda>r. anomaly_score r = - 1) (rows df)))"
proof (intro conjI impI)
  show "risk_score_of row =
     spec_risk_score (feature.request_count row) (avg_time_between_requests row)
       (error_ratio row) (user_agent_count row)"
    by (rule risk_score_of_spec)
  show "calculate_risk_level row = spec_risk_level (risk_score_of row)"
    by (rule calculate_risk_level_spec)
next
  assume ok: "analyze_anomalies df = Inr findings"
  let ?out = "filter (\<lambda>r. anomaly_score r = - 1) (rows df)"
  have findings: "findings = map (\<lambda>anomaly.
                    \<lparr>ip = feature.ip anomaly,
                     request_count = feature.request_count anomaly,
                     unusual_patterns = identify_unusual_patterns anomaly,
                     risk_level = calculate_risk_level anomaly\<rparr>) ?out"
    using ok by (auto simp: analyze_anomalies_def getitem_def Let_def split: if_splits)
  show "map anomaly.ip findings = map feature.ip ?out"
    by (simp add: findings comp_def)
  show "map risk_level findings =
            map (\<lambda>r. spec_risk_level
                       (spec_risk_score (feature.request_count r) (avg_time_between_requests r)
                          (error_ratio r) (user_agent_count r))) ?out"
    by (simp add: findings comp_def calculate_risk_level_spec risk_score_of_spec)
qed
theorem risk_score_additive_witness:
  "analyze_anomalies scenario_b_results =
     Inr [\<lparr>ip = ''203.0.113.9'', request_count = 1500,
           unusual_patterns = [''Extremely high request count'', ''Unusually rapid requests'',
                               ''High error rate'', ''Multiple user agents''],
           risk_level = ''High''\<rparr>]
   \<and> spec_risk_score 1500 0.05 0.6 15 = 10
   \<and> spec_risk_level 10 = ''High''"
proof -
  have out: "filter (\<lambda>r. anomaly_score r = - 1) (rows scenario_b_results) = [scenario_b_row]"
    by (simp add: scenario_b_results_def scenario_b_row_def quiet_row_def)
  have pat: "identify_unusual_patterns scenario_b_row =
          [''Extremely high request count'', ''Unusually rapid requests'',
           ''High error rate'', ''Multiple user agents'']"
    by (simp add: identify_unusual_patterns_def scenario_b_row_def Let_def)
  have fields: "feature.ip scenario_b_row = ''203.0.113.9''"
    "feature.request_count scenario_b_row = 1500"
    "avg_time_between_requests scenario_b_row = 0.05"
    "error_ratio scenario_b_row = 0.6" "user_agent_count scenario_b_row = 15"
    by (simp_all add: scenario_b_row_def)
  have run: "analyze_anomalies scenario_b_results =
     Inr [\<lparr>ip = ''203.0.113.9'', request_count = 1500,
           unusual_patterns = identify_unusual_patterns scenario_b_row,
           risk_level = calculate_risk_level scenario_b_row\<rparr>]"
    by (simp add: analyze_anomalies_def getitem_def Let_def out fields)
      (simp add: scenario_b_results_def)
  have score: "spec_risk_score 1500 0.05 0.6 15 = 10"
    by (simp add: spec_risk_score_def)
  have level: "spec_risk_level 10 = ''High''"
    by (simp add: spec_risk_level_def)
  have "calculate_risk_level scenario_b_row = ''High''"
    using risk_score_additive [of scenario_b_row scenario_b_results "[]"] score level
    by (simp add: fields)
  then show ?thesis using run pat score level by simp
qed

lemma risk_score_of_mono:
  assumes "feature.request_count r \<le> feature.request_count r'"
    and "avg_time_between_requests r' \<le> avg_time_between_requests r"
    and "error_ratio r \<le> error_ratio r'"
    and "user_agent_count r \<le> user_agent_count r'"
  shows "risk_score_of r \<le> risk_score_of r'"
  using assms by (simp add: risk_score_of_def Let_def)

lemma risk_rank_level_mono:
  "s \<le> s' \<Longrightarrow> risk_rank (spec_risk_level s) \<le> risk_rank (spec_risk_level s')"
  by (simp add: risk_rank_def spec_risk_level_def)

lemma calculate_risk_level_mono:
  assumes "feature.request_count r \<le> feature.request_count r'"
    and "avg_time_between_requests r' \<le> avg_time_between_requests r"
    and "error_ratio r \<le> error_ratio r'"
    and "user_agent_count r \<le> user_agent_count r'"
  shows "risk_rank (calculate_risk_level r) \<le> risk_rank (calculate_risk_level r')"
  unfolding calculate_risk_level_spec
  by (rule risk_rank_level_mono) (rule risk_score_of_mono [OF assms])

text \<open>
  Claim C5. Changing one contributing metric of a row and leaving the rest of the row as
  it is (more requests, a smaller mean inter-arrival time, a larger error ratio, or
  more user agents) never lowers the risk level, in the order Low, Medium, High.
\<close>

theorem risk_level_monotone:
  "(feature.request_count row \<le> n \<longrightarrow>
      risk_rank (calculate_risk_level row)
        \<le> risk_rank (calculate_risk_level (row\<lparr>feature.request_count := n\<rparr>)))
   \<and> (t \<le> avg_time_between_requests row \<longrightarrow>
      risk_rank (calculate_risk_level row)
        \<le> risk_rank (calculate_risk_level (row\<lparr>avg_time_between_requests := t\<rparr>)))
   \<and> (error_ratio row \<le> e \<longrightarrow>
      risk_rank (calculate_risk_level row)
        \<le> risk_rank (calculate_risk_level (row\<lparr>error_ratio := e\<rparr>)))
   \<and> (user_agent_count row \<le> u \<longrightarrow>
      risk_rank (calculate_risk_level row)
        \<le> risk_rank (calculate_risk_level (row\<lparr>user_agent_count := u\<rparr>)))"
  by (intro conjI impI calculate_risk_level_mono) simp_all

theorem risk_level_monotone_witness:
  "feature.request_count quiet_row \<le> 1500
   \<and> risk_rank (calculate_risk_level quiet_row)
       \<le> risk_rank (calculate_risk_level (quiet_row\<lparr>feature.request_count := 1500\<rparr>))
   \<and> calculate_risk_level quiet_row = ''Low''
   \<and> calculate_risk_level (quiet_row\<lparr>feature.request_count := 1500\<rparr>) = ''Medium''
   \<and> 0.05 \<le> avg_time_between_requests quiet_row
   \<and> calculate_risk_level (quiet_row\<lparr>avg_time_between_requests := 0.05\<rparr>) = ''Medium''
   \<and> error_ratio quiet_row \<le> 0.9
   \<and> calculate_risk_level (quiet_row\<lparr>error_ratio := 0.9\<rparr>) = ''Low''
   \<and> user_agent_count quiet_row \<le> 15
   \<and> calculate_risk_level (quiet_row\<lparr>user_agent_count := 15\<rparr>) = ''Medium''"
proof -
  have h: "feature.request_count quiet_row \<le> 1500"
    by (simp add: quiet_row_def)
  have "risk_rank (calculate_risk_level quiet_row)
       \<le> risk_rank (calculate_risk_level (quiet_row\<lparr>feature.request_count := 1500\<rparr>))"
    using risk_level_monotone [of quiet_row 1500] h by blast
  moreover have "calculate_risk_level quiet_row = ''Low''"
    "calculate_risk_level (quiet_row\<lparr>feature.request_count := 1500\<rparr>) = ''Medium''"
    "calculate_risk_level (quiet_row\<lparr>avg_time_between_requests := 0.05\<rparr>) = ''Medium''"
    "calculate_risk_level (quiet_row\<lparr>error_ratio := 0.9\<rparr>) = ''Low''"
    "calculate_risk_level (quiet_row\<lparr>user_agent_count := 15\<rparr>) = ''Medium''"
    by (simp_all add: calculate_risk_level_def risk_score_of_def quiet_row_def Let_def)
  moreover have "0.05 \<le> avg_time_between_requests quiet_row"
    "error_ratio quiet_row \<le> 0.9" "user_agent_count quiet_row \<le> 15"
    by (simp_all add: quiet_row_def)
  ultimately show ?thesis using h by blast
qed

section \<open>The recommendation claim\<close>

text \<open>
  The frame of a non-empty batch has the columns the rules read, and \<open>analyze_patterns\<close>
  keeps the columns of the frame it is given.
\<close>

lemma feature_columns_present:
  "logs \<noteq> [] \<Longrightarrow>
     set [''request_count'', ''user_agent_count'', ''error_ratio'',
          ''avg_time_between_requests''] \<subseteq> set (columns (extract_features logs))"
  by (simp add: extract_features_def pd_DataFrame_def feature_keys_def)

lemma analyze_patterns_columns:
  assumes "analyze_patterns isolation_forest_fit_predict dbscan_fit_predict now features_df
             = Inr (results_df, m)"
  shows "set (columns features_df) \<subseteq> set (columns results_df)"
  using assms
  by (auto simp: analyze_patterns_def Let_def split: sum.splits if_splits)

lemma distinct_all_recommendations: "distinct all_recommendations"
  by (simp add: all_recommendations_def rate_limiting_recommendation_def
      multi_agent_recommendation_def error_rate_recommendation_def timing_recommendation_def)

lemma generate_recommendations_eq:
  assumes "set [''request_count'', ''user_agent_count'', ''error_ratio'',
                ''avg_time_between_requests''] \<subseteq> set (columns df)"
  shows "generate_recommendations df =
     Inr ((if \<exists>r \<in> set (rows df). feature.request_count r > 1000
           then [rate_limiting_recommendation] else [])
        @ (if \<exists>r \<in> set (rows df). user_agent_count r > 10
           then [multi_agent_recommendation] else [])
        @ (if \<exists>r \<in> set (rows df). error_ratio r > 0.5
           then [error_rate_recommendation] else [])
        @ (if \<exists>r \<in> set (rows df). avg_time_between_requests r < 0.1
           then [timing_recommendation] else []))"
  using assms
  by (simp add: generate_recommendations_def getitem_def Let_def list_ex_iff
      rate_limiting_recommendation_def multi_agent_recommendation_def
      error_rate_recommendation_def timing_recommendation_def)

text \<open>
  Claim C6. On a frame that has the four columns the tests read, the list of
  recommendations has no duplicate, holds only the four recommendations, holds each of
  them exactly when some row meets its test (more than 1000 requests, more than 10 user
  agents, error ratio above 0.5, mean inter-arrival time below 0.1), and lists them in
  the fixed order. Every frame built from a non-empty batch has the columns.
\<close>

theorem recommendations_once_in_fixed_order:
  assumes "set [''request_count'', ''user_agent_count'', ''error_ratio'',
                ''avg_time_between_requests''] \<subseteq> set (columns df)"
  shows "\<exists>recs. generate_recommendations df = Inr recs
     \<and> distinct recs
     \<and> set recs \<subseteq> set all_recommendations
     \<and> (rate_limiting_recommendation \<in> set recs
          \<longleftrightarrow> (\<exists>r \<in> set (rows df). feature.request_count r > 1000))
     \<and> (multi_agent_recommendation \<in> set recs
          \<longleftrightarrow> (\<exists>r \<in> set (rows df). user_agent_count r > 10))
     \<and> (error_rate_recommendation \<in> set recs
          \<longleftrightarrow> (\<exists>r \<in> set (rows df). error_ratio r > 0.5))
     \<and> (timing_recommendation \<in> set recs
          \<longleftrightarrow> (\<exists>r \<in> set (rows df). avg_time_between_requests r < 0.1))
     \<and> recs = filter (\<lambda>x. x \<in> set recs) all_recommendations"
proof -
  have d: "distinct [rate_limiting_recommendation, multi_agent_recommendation,
      error_rate_recommendation, timing_recommendation]"
    using distinct_all_recommendations by (simp only: all_recommendations_def)
  show ?thesis
    unfolding generate_recommendations_eq [OF assms] all_recommendations_def
    using d by (intro exI conjI; (rule refl)?) auto
qed

lemma scenario_b_columns:
  "set [''request_count'', ''user_agent_count'', ''error_ratio'',
        ''avg_time_between_requests''] \<subseteq> set (columns scenario_b_results)"
  by (simp add: scenario_b_results_def feature_keys_def)

theorem recommendations_once_in_fixed_order_witness:
  "set [''request_count'', ''user_agent_count'', ''error_ratio'',
        ''avg_time_between_requests''] \<subseteq> set (columns scenario_b_results)
   \<and> generate_recommendations scenario_b_results =
       Inr [''Consider implementing rate limiting for high-frequency requestors'',
            ''Monitor IPs using multiple user agents'',
            ''Investigate IPs with high error rates'',
            ''Implement request timing analysis'']"
proof -
  obtain recs where run: "generate_recommendations scenario_b_results = Inr recs"
    and r1: "rate_limiting_recommendation \<in> set recs
          \<longleftrightarrow> (\<exists>r \<in> set (rows scenario_b_results). feature.request_count r > 1000)"
    and r2: "multi_agent_recommendation \<in> set recs
          \<longleftrightarrow> (\<exists>r \<in> set (rows scenario_b_results). user_agent_count r > 10)"
    and r3: "error_rate_recommendation \<in> set recs
          \<longleftrightarrow> (\<exists>r \<in> set (rows scenario_b_results). error_ratio r > 0.5)"
    and r4: "timing_recommendation \<in> set recs
          \<longleftrightarrow> (\<exists>r \<in> set (rows scenario_b_results). avg_time_between_requests r < 0.1)"
    and ord: "recs = filter (\<lambda>x. x \<in> set recs) all_recommendations"
    using recommendations_once_in_fixed_order [OF scenario_b_columns] by blast
  have "rate_limiting_recommendation \<in> set recs" "multi_agent_recommendation \<in> set recs"
    "error_rate_recommendation \<in> set recs" "timing_recommendation \<in> set recs"
    unfolding r1 r2 r3 r4
    by (simp_all add: scenario_b_results_def scenario_b_row_def quiet_row_def)
  then have "filter (\<lambda>x. x \<in> set recs) all_recommendations = all_recommendations"
    by (simp add: all_recommendations_def)
  then have "recs = all_recommendations" using ord by simp
  then show ?thesis
    using run scenario_b_columns
    by (simp add: all_recommendations_def rate_limiting_recommendation_def
        multi_agent_recommendation_def error_rate_recommendation_def timing_recommendation_def)
qed

section \<open>The high-frequency claim\<close>

lemma get_high_frequency_ips_eq:
  assumes "''request_count'' \<in> set (columns df)"
  shows "get_high_frequency_ips df =
     Inr (filter (\<lambda>r. 2 \<le> length (rows df)
                    \<and> real_of_int (feature.request_count r)
                        > batch_mean (request_counts df) + 2 * sample_stddev (request_counts df))
            (rows df))"
proof (cases "2 \<le> length (rows df)")
  case True
  then have "rows df \<noteq> []" by auto
  with True show ?thesis
    using assms
    by (simp add: get_high_frequency_ips_def getitem_def series_mean_def series_std_def
        Let_def batch_mean_def sample_stddev_def request_counts_def)
next
  case False
  then show ?thesis
    using assms
    by (simp add: get_high_frequency_ips_def getitem_def series_mean_def series_std_def
        Let_def split: option.splits)
qed

lemma request_count_ip_feature:
  "feature.request_count (ip_feature logs a) = int (length (filter (\<lambda>log. log_entry.ip log = a) logs))"
  by (simp add: ip_feature_def Let_def)

lemma request_counts_extract_features:
  "request_counts (extract_features logs) =
     map (\<lambda>a. real (length (filter (\<lambda>log. log_entry.ip log = a) logs)))
       (remdups (map log_entry.ip logs))"
  by (simp add: request_counts_def rows_extract_features comp_def request_count_ip_feature)

lemma columns_extract_features:
  "logs \<noteq> [] \<Longrightarrow> ''request_count'' \<in> set (columns (extract_features logs))"
  by (simp add: extract_features_def pd_DataFrame_def feature_keys_def)

lemma skewed_counts: "request_counts (extract_features skewed_logs) = [1, 1, 1, 1, 2, 4]"
proof -
  have "map (\<lambda>a. length (filter (\<lambda>log. log_entry.ip log = a) skewed_logs))
          (remdups (map log_entry.ip skewed_logs)) = [1, 1, 1, 1, 2, 4]"
    by code_simp
  then have "map real (map (\<lambda>a. length (filter (\<lambda>log. log_entry.ip log = a) skewed_logs))
          (remdups (map log_entry.ip skewed_logs))) = map real [1, 1, 1, 1, 2, 4]"
    by (rule arg_cong)
  then show ?thesis by (simp add: request_counts_extract_features comp_def)
qed

lemma skewed_sample: "batch_mean [1, 1, 1, 1, 2, 4] + 2 * sample_stddev [1, 1, 1, 1, 2, 4] \<ge> 4"
proof -
  have m: "batch_mean [1, 1, 1, 1, 2, 4] = 5 / 3" by (simp add: batch_mean_def)
  have "sample_stddev [1, 1, 1, 1, 2, 4] = sqrt (22 / 15)"
    by (simp add: sample_stddev_def m power2_eq_square)
  moreover have "7 / 6 \<le> sqrt (22 / 15)"
    by (rule real_le_rsqrt) (simp add: power2_eq_square)
  ultimately show ?thesis using m by simp
qed

lemma skewed_population:
  "batch_mean [1, 1, 1, 1, 2, 4] + 2 * population_stddev [1, 1, 1, 1, 2, 4] < 4"
proof -
  have m: "batch_mean [1, 1, 1, 1, 2, 4] = 5 / 3" by (simp add: batch_mean_def)
  have "population_stddev [1, 1, 1, 1, 2, 4] = sqrt (11 / 9)"
    by (simp add: population_stddev_def m power2_eq_square)
  moreover have "sqrt (11 / 9) < 7 / 6"
    by (rule real_less_lsqrt) (simp_all add: power2_eq_square)
  ultimately show ?thesis using m by simp
qed

text \<open>
  Claim C3, as amended. On a frame with the column \<open>request_count\<close>, an address is
  flagged high-frequency exactly when the frame has at least two rows and its request
  count exceeds the mean of the request counts plus 2 times their sample standard
  deviation (\<open>Series.std()\<close> divides by \<open>n - 1\<close>); both are computed over the whole
  frame. With a single row the deviation is NaN and nothing is flagged.
\<close>

theorem high_frequency_sample_stddev:
  assumes "''request_count'' \<in> set (columns df)"
  shows "get_high_frequency_ips df =
     Inr (filter (\<lambda>r. 2 \<le> length (rows df)
                    \<and> real_of_int (feature.request_count r)
                        > batch_mean (request_counts df) + 2 * sample_stddev (request_counts df))
            (rows df))"
  using assms by (rule get_high_frequency_ips_eq)

lemma spike_addresses:
  "remdups (map log_entry.ip spike_logs) =
     [''10.0.0.1'', ''10.0.0.2'', ''10.0.0.3'', ''10.0.0.4'', ''10.0.0.5'', ''10.0.0.6'',
      ''10.0.0.7'', ''10.0.0.8'', ''10.0.0.9'']"
  by code_simp

lemma spike_counts: "request_counts (extract_features spike_logs) = [1, 1, 1, 1, 1, 1, 1, 1, 4]"
proof -
  have "map (\<lambda>a. length (filter (\<lambda>log. log_entry.ip log = a) spike_logs))
          (remdups (map log_entry.ip spike_logs)) = [1, 1, 1, 1, 1, 1, 1, 1, 4]"
    by code_simp
  then have "map real (map (\<lambda>a. length (filter (\<lambda>log. log_entry.ip log = a) spike_logs))
          (remdups (map log_entry.ip spike_logs))) = map real [1, 1, 1, 1, 1, 1, 1, 1, 4]"
    by (rule arg_cong)
  then show ?thesis by (simp add: request_counts_extract_features comp_def)
qed

lemma spike_threshold:
  "batch_mean [1, 1, 1, 1, 1, 1, 1, 1, 4] + 2 * sample_stddev [1, 1, 1, 1, 1, 1, 1, 1, 4] = 10 / 3"
proof -
  have m: "batch_mean [1, 1, 1, 1, 1, 1, 1, 1, 4] = 4 / 3" by (simp add: batch_mean_def)
  have "sample_stddev [1, 1, 1, 1, 1, 1, 1, 1, 4] = sqrt 1"
    by (simp add: sample_stddev_def m power2_eq_square)
  then show ?thesis using m by simp
qed

lemma spike_request_counts:
  "map (\<lambda>a. feature.request_count (ip_feature spike_logs a))
     [''10.0.0.1'', ''10.0.0.2'', ''10.0.0.3'', ''10.0.0.4'', ''10.0.0.5'', ''10.0.0.6'',
      ''10.0.0.7'', ''10.0.0.8'', ''10.0.0.9''] = [1, 1, 1, 1, 1, 1, 1, 1, 4]"
proof -
  have "map (\<lambda>a. int (length (filter (\<lambda>log. log_entry.ip log = a) spike_logs)))
     [''10.0.0.1'', ''10.0.0.2'', ''10.0.0.3'', ''10.0.0.4'', ''10.0.0.5'', ''10.0.0.6'',
      ''10.0.0.7'', ''10.0.0.8'', ''10.0.0.9''] = [1, 1, 1, 1, 1, 1, 1, 1, 4]"
    by code_simp
  then show ?thesis by (simp only: request_count_ip_feature)
qed

theorem high_frequency_sample_stddev_witness:
  "''request_count'' \<in> set (columns (extract_features spike_logs))
   \<and> request_counts (extract_features spike_logs) = [1, 1, 1, 1, 1, 1, 1, 1, 4]
   \<and> get_high_frequency_ips (extract_features spike_logs) =
       Inr [ip_feature spike_logs ''10.0.0.9'']"
proof -
  have col: "''request_count'' \<in> set (columns (extract_features spike_logs))"
    by (rule columns_extract_features) (simp add: spike_logs_def)
  have rws: "rows (extract_features spike_logs) =
     map (ip_feature spike_logs)
       [''10.0.0.1'', ''10.0.0.2'', ''10.0.0.3'', ''10.0.0.4'', ''10.0.0.5'', ''10.0.0.6'',
        ''10.0.0.7'', ''10.0.0.8'', ''10.0.0.9'']"
    by (simp only: rows_extract_features spike_addresses)
  have len: "length (rows (extract_features spike_logs)) = 9"
    by (simp add: rws)
  show ?thesis
    using high_frequency_sample_stddev [OF col] col spike_request_counts
    by (simp add: spike_counts spike_threshold len) (simp add: rws)
qed

text \<open>
  With the population standard deviation, as the specification words the claim, the
  address with 4 requests of \<open>skewed_logs\<close> would be flagged: 4 exceeds the mean 5/3
  plus twice the population deviation. The source flags no address of that batch.
\<close>

theorem population_stddev_counterexample:
  "request_counts (extract_features skewed_logs) = [1, 1, 1, 1, 2, 4]
   \<and> get_high_frequency_ips (extract_features skewed_logs) = Inr []
   \<and> 4 > batch_mean [1, 1, 1, 1, 2, 4] + 2 * population_stddev [1, 1, 1, 1, 2, 4]"
proof -
  have col: "''request_count'' \<in> set (columns (extract_features skewed_logs))"
    by (rule columns_extract_features) (simp add: skewed_logs_def)
  have le: "real_of_int (feature.request_count r) \<le> 4"
    if "r \<in> set (rows (extract_features skewed_logs))" for r
  proof -
    have "real_of_int (feature.request_count r) \<in> set (request_counts (extract_features skewed_logs))"
      using that by (simp add: request_counts_def)
    then show ?thesis by (auto simp: skewed_counts)
  qed
  have "filter (\<lambda>r. 2 \<le> length (rows (extract_features skewed_logs))
                    \<and> real_of_int (feature.request_count r)
                        > batch_mean (request_counts (extract_features skewed_logs))
                          + 2 * sample_stddev (request_counts (extract_features skewed_logs)))
            (rows (extract_features skewed_logs)) = []"
    unfolding filter_empty_conv skewed_counts
    using le skewed_sample by fastforce
  then have "get_high_frequency_ips (extract_features skewed_logs) = Inr []"
    using get_high_frequency_ips_eq [OF col] by simp
  then show ?thesis
    using skewed_counts skewed_population by simp
qed

section \<open>The empty batch\<close>

text \<open>
  Claim C1 says that an empty batch gives an empty result, zero metrics and an empty
  list of recommendations, and that nothing is raised. The source has no branch for the
  empty batch: \<open>extract_features\<close> returns a frame with no row and no column,
  \<open>analyze_patterns\<close> hands the empty matrix to the scaler, which refuses it, and the
  interpretation functions look up a column that the frame does not have.
\<close>

theorem empty_batch_raises:
  "extract_features [] = \<lparr>columns = [], rows = []\<rparr>
   \<and> analyze_patterns isolation_forest_fit_predict dbscan_fit_predict now (extract_features [])
       = Inl ValueError
   \<and> get_high_frequency_ips (extract_features []) = Inl (KeyError ''request_count'')
   \<and> generate_recommendations (extract_features []) = Inl (KeyError ''request_count'')"
  by (simp add: extract_features_def pd_DataFrame_def analyze_patterns_def
      StandardScaler_fit_transform_def get_high_frequency_ips_def generate_recommendations_def
      getitem_def)

end
